theory Spec2Isabelle
  imports Complex_Main "HOL-Library.Sublist" "HOL-Library.AList"
begin

section \<open>Texts\<close>

text \<open>
  A Python \<open>str\<close> is a sequence of Unicode code points, so a text is a list of
  naturals. \<open>ascii\<close> turns a literal of the source into such a list.
\<close>

type_synonym str = "nat list"

definition ascii :: "string \<Rightarrow> str" where
  "ascii s = map of_char s"

datatype error = ConnectionError | HTTPError | JSONDecodeError | ValueError | OtherError

section \<open>The throttled session of comixology-to-ubooquity.py\<close>

subsection \<open>Pacing delays\<close>

text \<open>
  Python's \<open>min(a, b)\<close> keeps \<open>a\<close> unless \<open>b < a\<close>, and \<open>max(a, b)\<close> keeps \<open>a\<close>
  unless \<open>b > a\<close>.
\<close>

definition py_min :: "real \<Rightarrow> real \<Rightarrow> real" where
  "py_min a b = (if b < a then b else a)"

definition py_max :: "real \<Rightarrow> real \<Rightarrow> real" where
  "py_max a b = (if b > a then b else a)"

text \<open>
  \<open>get_random_delay\<close>: the draw of \<open>random.normalvariate\<close> is the parameter
  \<open>normalvariate\<close>, any function of the mean and the standard deviation.
\<close>

definition get_random_delay :: "(real \<Rightarrow> real \<Rightarrow> real) \<Rightarrow> real \<Rightarrow> real \<Rightarrow> real" where
  "get_random_delay normalvariate lower upper =
     (let range' = upper - lower;
          mean = (upper + lower) / 2;
          delay = normalvariate mean (range' / 4)
      in py_max lower (py_min upper delay))"

text \<open>\<open>get_adjust_delay\<close>, with the reading of \<open>time.time()\<close> as the argument \<open>now\<close>.\<close>

definition get_adjust_delay :: "real \<Rightarrow> real \<Rightarrow> real \<Rightarrow> real" where
  "get_adjust_delay now delay last_request_time =
     py_max 0 (delay - (now - last_request_time))"

text \<open>A draw three standard deviations above the mean, and a draw at the mean.\<close>

definition far_draw :: "real \<Rightarrow> real \<Rightarrow> real" where
  "far_draw mean sd = mean + 3 * sd"

definition mean_draw :: "real \<Rightarrow> real \<Rightarrow> real" where
  "mean_draw mean sd = mean"

subsection \<open>The request method\<close>

record arguments =
  request_attempts :: int
  delay_range :: "real \<times> real"

text \<open>
  What \<open>original_request\<close> does on one dispatch: it returns a response or raises.
\<close>

datatype 'r reply = Response 'r | Raises error

text \<open>
  The world outside the method: the \<open>k\<close>-th dispatch of the session (counted from 0)
  answers \<open>reply_of k\<close> after \<open>duration_of k\<close> seconds, and the \<open>k\<close>-th draw of the
  random generator is \<open>draw_of k\<close>.
\<close>

record 'r network =
  reply_of :: "nat \<Rightarrow> 'r reply"
  duration_of :: "nat \<Rightarrow> real"
  draw_of :: "nat \<Rightarrow> real \<Rightarrow> real \<Rightarrow> real"

text \<open>
  The session: the clock read by \<open>time.time()\<close>, \<open>_last_request_times\<close> (a
  \<open>defaultdict(float)\<close>: a host never written reads 0), every \<open>time.sleep\<close> made, in
  order, and the number of dispatches made.
\<close>

record session =
  clock :: real
  last_request_times :: "str \<Rightarrow> real"
  sleeps :: "real list"
  dispatched :: nat

definition sleep :: "real \<Rightarrow> session \<Rightarrow> session" where
  "sleep d s = s\<lparr>clock := clock s + d, sleeps := sleeps s @ [d]\<rparr>"

definition original_request :: "'r network \<Rightarrow> session \<Rightarrow> 'r reply \<times> session" where
  "original_request net s =
     (reply_of net (dispatched s),
      s\<lparr>clock := clock s + duration_of net (dispatched s), dispatched := Suc (dispatched s)\<rparr>)"

text \<open>
  The body of \<open>for attempt in range(1, attempts)\<close>, on the attempt numbers still to
  run. The result is \<open>Inl e\<close> when the method raises \<open>e\<close>, \<open>Inr (Some r)\<close> when it
  returns the response \<open>r\<close>, and \<open>Inr None\<close> when the loop ends and the method
  returns \<open>None\<close>.
\<close>

fun request_loop ::
  "arguments \<Rightarrow> 'r network \<Rightarrow> str \<Rightarrow> int \<Rightarrow> int list \<Rightarrow> session \<Rightarrow> (error + 'r option) \<times> session"
where
  "request_loop args net netloc attempts [] s = (Inr None, s)"
| "request_loop args net netloc attempts (attempt # rest) s =
     (let raw_delay = get_random_delay (draw_of net (dispatched s))
                        (fst (delay_range args)) (snd (delay_range args));
          delay = get_adjust_delay (clock s) raw_delay (last_request_times s netloc);
          s1 = (if delay > 0 then sleep delay s else s);
          s2 = s1\<lparr>last_request_times := (last_request_times s1)(netloc := clock s1)\<rparr>;
          (answer, s3) = original_request net s2
      in case answer of
           Raises ConnectionError \<Rightarrow>
             if attempt \<ge> attempts then (Inl ConnectionError, s3)
             else request_loop args net netloc attempts rest s3
         | Raises e \<Rightarrow> (Inl e, s3)
         | Response r \<Rightarrow> (Inr (Some r), s3))"

text \<open>
  \<open>request\<close>; \<open>urlsplit(url).netloc\<close> is the parameter \<open>netloc_of\<close>, and
  \<open>range(1, attempts)\<close> is the list \<open>[1..attempts - 1]\<close>.
\<close>

definition request ::
  "arguments \<Rightarrow> 'r network \<Rightarrow> (str \<Rightarrow> str) \<Rightarrow> str \<Rightarrow> session \<Rightarrow> (error + 'r option) \<times> session"
where
  "request args net netloc_of url s =
     (let attempts = max 1 (request_attempts args)
      in request_loop args net (netloc_of url) attempts [1..attempts - 1] s)"

text \<open>A network on which every dispatch fails with a connection error at once.\<close>

definition network_down :: "unit network" where
  "network_down = \<lparr>reply_of = (\<lambda>k. Raises ConnectionError), duration_of = (\<lambda>k. 0),
                    draw_of = (\<lambda>k. mean_draw)\<rparr>"

definition default_arguments :: arguments where
  "default_arguments = \<lparr>request_attempts = 3, delay_range = (1, 3)\<rparr>"

definition new_session :: session where
  "new_session = \<lparr>clock = 1000, last_request_times = (\<lambda>h. 0), sleeps = [], dispatched = 0\<rparr>"

section \<open>Candidate ranking of fetch_publisher_images.py\<close>

subsection \<open>Operations on texts\<close>

text \<open>
  \<open>str.lower\<close> on the ASCII letters. The Unicode case tables are not part of the
  source; a code point outside \<open>A\<close>..\<open>Z\<close> is kept as it is.
\<close>

definition lower_cp :: "nat \<Rightarrow> nat" where
  "lower_cp c = (if 65 \<le> c \<and> c \<le> 90 then c + 32 else c)"

definition lower :: "str \<Rightarrow> str" where
  "lower s = map lower_cp s"

text \<open>\<open>sep.join(parts)\<close>.\<close>

fun join :: "str \<Rightarrow> str list \<Rightarrow> str" where
  "join sep [] = []"
| "join sep [x] = x"
| "join sep (x # y # ys) = x @ sep @ join sep (y # ys)"

text \<open>
  \<open>word in text\<close> is \<open>sublist word text\<close>, \<open>text.startswith(p)\<close> is \<open>prefix p text\<close>
  and \<open>text.endswith(e)\<close> is \<open>suffix e text\<close>; \<open>endswith\<close> of a tuple asks for one
  of its members.
\<close>

definition endswith_any :: "str \<Rightarrow> string list \<Rightarrow> bool" where
  "endswith_any text ends = list_ex (\<lambda>e. suffix (ascii e) text) ends"

subsection \<open>Scoring an img tag\<close>

definition score_image_candidate :: "str \<Rightarrow> str \<Rightarrow> str \<Rightarrow> str \<Rightarrow> int" where
  "score_image_candidate url alt klass img_id =
     (let score = 0;
          text = lower (join (ascii '' '') [url, alt, klass, img_id]);
          score = (if sublist (ascii ''logo'') text then score + 6 else score);
          score = (if sublist (ascii ''brand'') text then score + 3 else score);
          score = (if sublist (ascii ''header'') text \<or> sublist (ascii ''banner'') text
                   then score + 1 else score);
          score = (if sublist (ascii ''sprite'') text \<or> sublist (ascii ''icon'') text
                   then score - 2 else score);
          score = (if endswith_any (lower url) [''.png'', ''.jpg'', ''.jpeg'', ''.webp'', ''.gif'']
                   then score + 2 else score);
          score = (if suffix (ascii ''.svg'') (lower url) then score - 2 else score)
      in score)"

text \<open>
  The heuristic in the words of the specification: a word counts when one of the four
  fields contains it, whatever the case of its letters; the extension of the URL is
  read without regard to case as well.
\<close>

definition mentions :: "string \<Rightarrow> str list \<Rightarrow> bool" where
  "mentions word texts = list_ex (\<lambda>field. sublist (ascii word) (lower field)) texts"

definition heuristic_score :: "str \<Rightarrow> str \<Rightarrow> str \<Rightarrow> str \<Rightarrow> int" where
  "heuristic_score url alt klass img_id =
     (let texts = [url, alt, klass, img_id]
      in (if mentions ''logo'' texts then 6 else 0)
       + (if mentions ''brand'' texts then 3 else 0)
       + (if mentions ''header'' texts \<or> mentions ''banner'' texts then 1 else 0)
       - (if mentions ''sprite'' texts \<or> mentions ''icon'' texts then 2 else 0)
       + (if endswith_any (lower url) [''.png'', ''.jpg'', ''.jpeg'', ''.webp'', ''.gif'']
          then 2 else 0)
       - (if suffix (ascii ''.svg'') (lower url) then 2 else 0))"

subsection \<open>SimpleHTMLImageParser\<close>

datatype source_kind = Meta | Icon | Img

text \<open>
  A candidate is the dictionary with the keys \<open>url\<close>, \<open>score\<close> and \<open>source\<close>.
\<close>

record candidate =
  cand_url :: str
  cand_score :: int
  cand_source :: source_kind

text \<open>
  The attributes of a start tag as \<open>HTMLParser\<close> hands them over: pairs of a name and
  a value, the value \<open>None\<close> for an attribute written without one.
\<close>

type_synonym attrs = "(str \<times> str option) list"

text \<open>
  \<open>{k.lower(): v for k, v in attrs if k}\<close>: a later pair overwrites an earlier one
  of the same key.
\<close>

definition attrs_dict :: "attrs \<Rightarrow> (str \<rightharpoonup> str option)" where
  "attrs_dict attrs = fold (\<lambda>(k, v) d. if k \<noteq> [] then d(lower k \<mapsto> v) else d) attrs Map.empty"

text \<open>\<open>d.get(key)\<close>: \<open>None\<close> for a missing key and for a key whose value is \<open>None\<close>.\<close>

definition dict_get :: "('k \<rightharpoonup> 'v option) \<Rightarrow> 'k \<Rightarrow> 'v option" where
  "dict_get d key = (case d key of None \<Rightarrow> None | Some v \<Rightarrow> v)"

text \<open>Truth of a text or \<open>None\<close>, and \<open>a or b\<close> on such values.\<close>

definition truthy :: "str option \<Rightarrow> bool" where
  "truthy v = (case v of None \<Rightarrow> False | Some s \<Rightarrow> s \<noteq> [])"

definition py_or :: "str option \<Rightarrow> str option \<Rightarrow> str option" where
  "py_or a b = (if truthy a then a else b)"

text \<open>\<open>v or ""\<close>, whose value is always a text.\<close>

definition or_empty :: "str option \<Rightarrow> str" where
  "or_empty v = (case py_or v (Some []) of None \<Rightarrow> [] | Some s \<Rightarrow> s)"

record parser =
  base_url :: str
  candidates :: "candidate list"

text \<open>
  \<open>_add_candidate\<close>. \<open>urllib.parse.urljoin\<close> is the parameter \<open>urljoin\<close>; it
  raises \<open>ValueError\<close> on some references (one with an IPv6 host that is not
  closed, for example), so its result is a sum, and the error leaves
  \<open>_add_candidate\<close>, \<open>handle_starttag\<close> and \<open>feed\<close>.
\<close>

definition add_candidate ::
  "(str \<Rightarrow> str \<Rightarrow> error + str) \<Rightarrow> str \<Rightarrow> int \<Rightarrow> source_kind \<Rightarrow> parser \<Rightarrow> error + parser"
where
  "add_candidate urljoin u sc src p =
     (if u = [] \<or> prefix (ascii ''data:'') u then Inr p
      else case urljoin (base_url p) u of
             Inl e \<Rightarrow> Inl e
           | Inr full_url \<Rightarrow>
               Inr (p\<lparr>candidates := candidates p
                        @ [\<lparr>cand_url = full_url, cand_score = sc, cand_source = src\<rparr>]\<rparr>))"

definition handle_starttag ::
  "(str \<Rightarrow> str \<Rightarrow> error + str) \<Rightarrow> str \<Rightarrow> attrs \<Rightarrow> parser \<Rightarrow> error + parser"
where
  "handle_starttag urljoin tag attrs p =
     (let d = attrs_dict attrs in
      if lower tag = ascii ''base'' then
        (let href = dict_get d (ascii ''href'')
         in if truthy href then Inr (p\<lparr>base_url := or_empty href\<rparr>) else Inr p)
      else if lower tag = ascii ''meta'' then
        (let prop = lower (or_empty (py_or (dict_get d (ascii ''property''))
                                           (dict_get d (ascii ''name''))));
             content = or_empty (dict_get d (ascii ''content''))
         in if prop \<in> {ascii ''og:image'', ascii ''twitter:image'', ascii ''twitter:image:src''}
               \<and> content \<noteq> []
            then add_candidate urljoin content 8 Meta p else Inr p)
      else if lower tag = ascii ''link'' then
        (let rel = lower (or_empty (dict_get d (ascii ''rel'')));
             href = or_empty (dict_get d (ascii ''href''))
         in if href \<noteq> [] \<and> (sublist (ascii ''icon'') rel \<or> sublist (ascii ''apple-touch-icon'') rel)
            then add_candidate urljoin href 6 Icon p else Inr p)
      else if lower tag = ascii ''img'' then
        (let src = or_empty (dict_get d (ascii ''src''))
         in if src = [] then Inr p
            else let alt = or_empty (dict_get d (ascii ''alt''));
                     klass = or_empty (dict_get d (ascii ''class''));
                     img_id = or_empty (dict_get d (ascii ''id''));
                     sc = score_image_candidate src alt klass img_id
                 in add_candidate urljoin src sc Img p)
      else Inr p)"

text \<open>
  \<open>feed\<close>: the tokenizer of \<open>HTMLParser\<close> is not part of the source, so a page is the
  list of start tags it reports, in document order; \<open>handle_starttag\<close> runs on each,
  and the first error ends the run.
\<close>

type_synonym tags = "(str \<times> attrs) list"

fun feed :: "(str \<Rightarrow> str \<Rightarrow> error + str) \<Rightarrow> tags \<Rightarrow> parser \<Rightarrow> error + parser" where
  "feed urljoin [] p = Inr p"
| "feed urljoin ((tag, attrs) # ts) p =
     (case handle_starttag urljoin tag attrs p of
        Inl e \<Rightarrow> Inl e
      | Inr p \<Rightarrow> feed urljoin ts p)"

text \<open>
  \<open>sorted(xs, key=key, reverse=True)\<close>: the list is reversed, sorted by a stable sort
  and reversed again, which is how CPython keeps the order of equal keys under
  \<open>reverse\<close>. \<open>sort_key\<close>, the stable insertion sort of the library, stands for the
  stable sort of Python.
\<close>

definition sorted_reverse :: "('a \<Rightarrow> int) \<Rightarrow> 'a list \<Rightarrow> 'a list" where
  "sorted_reverse key xs = rev (sort_key key (rev xs))"

text \<open>
  The last three lines of \<open>fetch_html_candidates\<close>, on the final URL of the response
  and the start tags of its text: an error of \<open>feed\<close> is raised, else the candidates
  are sorted.
\<close>

definition ranked_candidates ::
  "(str \<Rightarrow> str \<Rightarrow> error + str) \<Rightarrow> str \<Rightarrow> tags \<Rightarrow> error + candidate list"
where
  "ranked_candidates urljoin final_url ts =
     (case feed urljoin ts \<lparr>base_url = final_url, candidates = []\<rparr> of
        Inl e \<Rightarrow> Inl e
      | Inr p \<Rightarrow> Inr (sorted_reverse cand_score (candidates p)))"

subsection \<open>The candidates of a page in the words of the specification\<close>

text \<open>
  The value of an attribute of a tag, the empty text when the tag does not have it
  or gives it no value.
\<close>

definition attribute :: "attrs \<Rightarrow> string \<Rightarrow> str" where
  "attribute attrs key = or_empty (dict_get (attrs_dict attrs) (ascii key))"

text \<open>
  The reference a tag gives, as it is written in the page, with its score and its
  source: a meta tag whose \<open>property\<close> (or, without one, \<open>name\<close>) is \<open>og:image\<close> or
  a twitter image gives its \<open>content\<close> at 8; a link whose \<open>rel\<close> contains \<open>icon\<close>
  gives its \<open>href\<close> at 6; an img tag gives its \<open>src\<close> at the heuristic of its own
  \<open>src\<close>, \<open>alt\<close>, \<open>class\<close> and \<open>id\<close>. A reference of the inline-data scheme is
  discarded.
\<close>

definition tag_reference :: "str \<Rightarrow> attrs \<Rightarrow> (str \<times> int \<times> source_kind) option" where
  "tag_reference tag attrs =
     (let prop = (if attribute attrs ''property'' \<noteq> [] then attribute attrs ''property''
                  else attribute attrs ''name'');
          found =
            (if lower tag = ascii ''meta''
                \<and> lower prop \<in> {ascii ''og:image'', ascii ''twitter:image'', ascii ''twitter:image:src''}
             then Some (attribute attrs ''content'', 8, Meta)
             else if lower tag = ascii ''link'' \<and> sublist (ascii ''icon'') (lower (attribute attrs ''rel''))
             then Some (attribute attrs ''href'', 6, Icon)
             else if lower tag = ascii ''img''
             then Some (attribute attrs ''src'',
                        heuristic_score (attribute attrs ''src'') (attribute attrs ''alt'')
                          (attribute attrs ''class'') (attribute attrs ''id''), Img)
             else None)
      in case found of
           None \<Rightarrow> None
         | Some (ref, sc, src) \<Rightarrow>
             if ref = [] \<or> prefix (ascii ''data:'') ref then None else found)"

text \<open>The base URL after a tag: a base tag with a \<open>href\<close> replaces it.\<close>

definition base_after :: "str \<Rightarrow> attrs \<Rightarrow> str \<Rightarrow> str" where
  "base_after tag attrs base =
     (if lower tag = ascii ''base'' \<and> attribute attrs ''href'' \<noteq> [] then attribute attrs ''href''
      else base)"

text \<open>
  The candidates of a page, in document order: the reference of each tag resolved
  against the base URL in force at the tag.
\<close>

fun page_candidates ::
  "(str \<Rightarrow> str \<Rightarrow> error + str) \<Rightarrow> str \<Rightarrow> tags \<Rightarrow> error + candidate list"
where
  "page_candidates urljoin base [] = Inr []"
| "page_candidates urljoin base ((tag, attrs) # ts) =
     (case tag_reference tag attrs of
        None \<Rightarrow> page_candidates urljoin (base_after tag attrs base) ts
      | Some (ref, sc, src) \<Rightarrow>
          (case urljoin base ref of
             Inl e \<Rightarrow> Inl e
           | Inr full_url \<Rightarrow>
               (case page_candidates urljoin base ts of
                  Inl e \<Rightarrow> Inl e
                | Inr cs \<Rightarrow>
                    Inr (\<lparr>cand_url = full_url, cand_score = sc, cand_source = src\<rparr> # cs))))"

subsection \<open>Sample pages\<close>

text \<open>
  \<open>urljoin\<close> at the references of the samples: a path from the root is appended to
  a site without a path, and the reference \<open>http://[bad\<close>, whose IPv6 host is not
  closed, raises \<open>ValueError\<close>.
\<close>

definition site_urljoin :: "str \<Rightarrow> str \<Rightarrow> error + str" where
  "site_urljoin base u = (if u = ascii ''http://[bad'' then Inl ValueError else Inr (base @ u))"

text \<open>
  A page with an img tag of class \<open>brand\<close> whose alternative text names a logo and
  whose id names the header, an \<open>og:image\<close> meta tag and an icon link, in this
  order; a second page with the meta tag before an img tag of the same score; a
  page of a site whose host name holds \<open>brand\<close> and \<open>logo\<close>; and a page with an img
  tag whose reference cannot be resolved.
\<close>

definition acme_page :: tags where
  "acme_page =
     [(ascii ''img'', [(ascii ''src'', Some (ascii ''/i/Mark.PNG'')),
                       (ascii ''class'', Some (ascii ''brand'')),
                       (ascii ''alt'', Some (ascii ''Acme Logo'')),
                       (ascii ''id'', Some (ascii ''site-header''))]),
      (ascii ''meta'', [(ascii ''property'', Some (ascii ''og:image'')),
                        (ascii ''content'', Some (ascii ''/og.jpg''))]),
      (ascii ''link'', [(ascii ''rel'', Some (ascii ''shortcut icon'')),
                        (ascii ''href'', Some (ascii ''/favicon.ico''))])]"

definition tie_page :: tags where
  "tie_page =
     [(ascii ''link'', [(ascii ''rel'', Some (ascii ''icon'')),
                        (ascii ''href'', Some (ascii ''/favicon.ico''))]),
      (ascii ''meta'', [(ascii ''name'', Some (ascii ''twitter:image'')),
                        (ascii ''content'', Some (ascii ''/card.jpg''))]),
      (ascii ''img'', [(ascii ''src'', Some (ascii ''/logo.png''))])]"

definition plain_page :: tags where
  "plain_page = [(ascii ''img'', [(ascii ''src'', Some (ascii ''/a.png''))])]"

definition bad_page :: tags where
  "bad_page =
     [(ascii ''img'', [(ascii ''src'', Some (ascii ''http://[bad''))]),
      (ascii ''meta'', [(ascii ''property'', Some (ascii ''og:image'')),
                        (ascii ''content'', Some (ascii ''/og.jpg''))])]"

definition acme_site :: str where
  "acme_site = ascii ''https://acme.example''"

definition brand_logo_site :: str where
  "brand_logo_site = ascii ''https://brand-logo.example''"

section \<open>Keys and folder names of fetch_publisher_images.py\<close>

text \<open>
  The functions of the Python libraries that the source calls and whose tables or
  code are not part of it: \<open>unicodedata.normalize("NFKD", _)\<close>,
  \<open>unicodedata.combining\<close>, \<open>urllib.parse.urljoin\<close>, \<open>requests.utils.quote\<close> and
  \<open>os.path.join\<close>. They are parameters of the model; \<open>urljoin\<close> and \<open>quote\<close>
  can raise (\<open>quote\<close> on a text that has no UTF-8 encoding), so their results are
  sums.
\<close>

record library =
  lib_nfkd :: "str \<Rightarrow> str"
  lib_combining :: "nat \<Rightarrow> nat"
  lib_urljoin :: "str \<Rightarrow> str \<Rightarrow> error + str"
  lib_quote :: "str \<Rightarrow> error + str"
  lib_path_join :: "str list \<Rightarrow> str"

text \<open>
  The white space of \<open>str.strip()\<close> and of \<open>\s\<close> in a pattern on texts: the code
  points for which \<open>str.isspace\<close> holds.
\<close>

definition is_space :: "nat \<Rightarrow> bool" where
  "is_space c \<longleftrightarrow>
     (9 \<le> c \<and> c \<le> 13) \<or> (28 \<le> c \<and> c \<le> 32) \<or> c = 133 \<or> c = 160 \<or> c = 5760
     \<or> (8192 \<le> c \<and> c \<le> 8202) \<or> c = 8232 \<or> c = 8233 \<or> c = 8239 \<or> c = 8287
     \<or> c = 12288"

text \<open>\<open>text.strip(chars)\<close> for the code points that satisfy \<open>P\<close>.\<close>

definition strip :: "(nat \<Rightarrow> bool) \<Rightarrow> str \<Rightarrow> str" where
  "strip P text = rev (dropWhile P (rev (dropWhile P text)))"

text \<open>\<open>text.replace(c, rep)\<close> for a single code point \<open>c\<close>.\<close>

definition replace :: "nat \<Rightarrow> str \<Rightarrow> str \<Rightarrow> str" where
  "replace c rep text = concat (map (\<lambda>x. if x = c then rep else [x]) text)"

text \<open>
  \<open>re.sub("[...]+", rep, text)\<close> for the class of the code points that satisfy \<open>P\<close>:
  every maximal run of such code points becomes \<open>rep\<close>.
\<close>

function sub_runs :: "(nat \<Rightarrow> bool) \<Rightarrow> str \<Rightarrow> str \<Rightarrow> str" where
  "sub_runs P rep [] = []"
| "sub_runs P rep (c # cs) =
     (if P c then rep @ sub_runs P rep (dropWhile P cs) else c # sub_runs P rep cs)"
  by pat_completeness auto
termination
  by (relation "measure (\<lambda>(P, rep, text). length text)")
     (auto simp: less_Suc_eq_le length_dropWhile_le)

text \<open>The class \<open>[a-z0-9]\<close> and the three apostrophes of the class \<open>['`\<dots>]\<close>.\<close>

definition is_az09 :: "nat \<Rightarrow> bool" where
  "is_az09 c \<longleftrightarrow> (97 \<le> c \<and> c \<le> 122) \<or> (48 \<le> c \<and> c \<le> 57)"

definition is_apostrophe :: "nat \<Rightarrow> bool" where
  "is_apostrophe c \<longleftrightarrow> c = 39 \<or> c = 96 \<or> c = 8217"

definition normalize_key :: "library \<Rightarrow> str \<Rightarrow> str" where
  "normalize_key lib name =
     (let text = lib_nfkd lib name;
          text = filter (\<lambda>c. lib_combining lib c = 0) text;
          text = lower text;
          text = replace 38 (ascii ''and'') text;
          text = filter (\<lambda>c. \<not> is_apostrophe c) text;
          text = strip is_space (sub_runs (\<lambda>c. \<not> is_az09 c) (ascii '' '') text)
      in sub_runs is_space (ascii '' '') text)"

text \<open>
  \<open>slugify_bdbase\<close>. Its last pattern \<open>-{2,}\<close> rewrites the runs of two hyphens or
  more; a run of one hyphen is rewritten to itself by \<open>sub_runs\<close>.
\<close>

definition slugify_bdbase :: "library \<Rightarrow> str \<Rightarrow> str" where
  "slugify_bdbase lib name =
     (let text = lib_nfkd lib name;
          text = filter (\<lambda>c. lib_combining lib c = 0) text;
          text = lower text;
          text = replace 38 (ascii '' et '') text;
          text = map (\<lambda>c. if is_apostrophe c then 32 else c) text;
          text = strip (\<lambda>c. c = 45) (sub_runs (\<lambda>c. \<not> is_az09 c) (ascii ''-'') text)
      in sub_runs (\<lambda>c. c = 45) (ascii ''-'') text)"

text \<open>\<open>sanitize_folder_name\<close>: the class is \<open>\ / : * ? " < > |\<close>.\<close>

definition sanitize_folder_name :: "str \<Rightarrow> str" where
  "sanitize_folder_name name =
     map (\<lambda>c. if c \<in> {92, 47, 58, 42, 63, 34, 60, 62, 124} then 45 else c) (strip is_space name)"

text \<open>
  A key as the claim describes it: lower-case ASCII letters, digits and spaces only,
  no two spaces in a row, no space at either end.
\<close>

definition clean_key :: "str \<Rightarrow> bool" where
  "clean_key text \<longleftrightarrow>
     list_all (\<lambda>c. is_az09 c \<or> c = 32) text \<and> \<not> sublist [32, 32] text
     \<and> \<not> prefix [32] text \<and> \<not> suffix [32] text"

text \<open>
  What is true of the Unicode tables on the texts of such keys: the decomposition
  leaves ASCII texts as they are, and no ASCII code point is a combining mark.
\<close>

definition ascii_fixed :: "library \<Rightarrow> bool" where
  "ascii_fixed lib \<longleftrightarrow>
     (\<forall>text. list_all (\<lambda>c. c < 128) text \<longrightarrow> lib_nfkd lib text = text)
     \<and> (\<forall>c < 128. lib_combining lib c = 0)"

text \<open>
  The library on the texts of the samples, which are ASCII: no decomposition, no
  combining mark, nothing to quote; references are resolved by \<open>site_urljoin\<close>, and
  the parts of a path are joined by a slash.
\<close>

definition ascii_library :: library where
  "ascii_library = \<lparr>lib_nfkd = (\<lambda>text. text), lib_combining = (\<lambda>c. 0), lib_urljoin = site_urljoin,
                     lib_quote = Inr, lib_path_join = join (ascii ''/'')\<rparr>"

section \<open>The resolution cache of fetch_publisher_images.py\<close>

text \<open>
  A record of the cache is the dictionary that \<open>resolve_publisher_info\<close> builds and
  \<open>main\<close> extends: keys with a text or \<open>None\<close> as value, in insertion order. Such
  a record is true in a condition when it is not empty.
\<close>

type_synonym info = "(str \<times> str option) list"

text \<open>
  The file at a path, as \<open>load_cache\<close> meets it: \<open>os.path.exists\<close> is false
  (\<open>Missing\<close>), or \<open>json.load\<close> raises on its text (\<open>Malformed\<close>), or \<open>json.load\<close>
  returns the dictionary of the document.
\<close>

datatype 'v file_state = Missing | Malformed | Document "str \<rightharpoonup> 'v"

definition load_cache :: "(str \<Rightarrow> 'v file_state) \<Rightarrow> str \<Rightarrow> error + (str \<rightharpoonup> 'v)" where
  "load_cache disk cache_path =
     (case disk cache_path of
        Missing \<Rightarrow> Inr Map.empty
      | Malformed \<Rightarrow> Inl JSONDecodeError
      | Document d \<Rightarrow> Inr d)"

text \<open>Two disks: one whose files are all malformed, one without files.\<close>

definition malformed_disk :: "str \<Rightarrow> info file_state" where
  "malformed_disk path = Malformed"

definition empty_disk :: "str \<Rightarrow> info file_state" where
  "empty_disk path = Missing"

section \<open>Images\<close>

text \<open>
  The imaging library is not part of the source. An image is modelled by what the
  source reads of it, its mode and its size, and by the history of its pixels: the
  calls of the library that made them. Each call below sets the mode and the size as
  the library documents it.
\<close>

datatype pixels =
    Decoded "nat list"
  | Filled "nat \<times> nat \<times> nat"
  | Pasted pixels pixels pixels
  | Last_band pixels
  | Converted str pixels
  | Cropped "int \<times> int \<times> int \<times> int" pixels
  | Resized_lanczos "int \<times> int" pixels

record image =
  img_mode :: str
  img_size :: "int \<times> int"
  img_pixels :: pixels

text \<open>\<open>Image.new(mode, size, color)\<close>.\<close>

definition image_new :: "str \<Rightarrow> int \<times> int \<Rightarrow> nat \<times> nat \<times> nat \<Rightarrow> image" where
  "image_new m sz color = \<lparr>img_mode = m, img_size = sz, img_pixels = Filled color\<rparr>"

text \<open>\<open>image.split()[-1]\<close>: the last band, an image of mode \<open>L\<close>.\<close>

definition last_band :: "image \<Rightarrow> image" where
  "last_band img = img\<lparr>img_mode := ascii ''L'', img_pixels := Last_band (img_pixels img)\<rparr>"

text \<open>
  \<open>background.paste(img, mask=mask)\<close>: the background keeps its mode and its size;
  where the mask is opaque it shows the pasted image, where it is transparent it keeps
  its own pixels.
\<close>

definition paste :: "image \<Rightarrow> image \<Rightarrow> image \<Rightarrow> image" where
  "paste background img alpha =
     background\<lparr>img_pixels := Pasted (img_pixels background) (img_pixels img) (img_pixels alpha)\<rparr>"

text \<open>\<open>image.convert(mode)\<close>.\<close>

definition convert :: "str \<Rightarrow> image \<Rightarrow> image" where
  "convert m img = img\<lparr>img_mode := m, img_pixels := Converted m (img_pixels img)\<rparr>"

text \<open>\<open>image.crop((left, top, right, bottom))\<close>.\<close>

definition crop :: "int \<times> int \<times> int \<times> int \<Rightarrow> image \<Rightarrow> image" where
  "crop box img =
     (case box of (left, top', right, bottom) \<Rightarrow>
        img\<lparr>img_size := (right - left, bottom - top'), img_pixels := Cropped box (img_pixels img)\<rparr>)"

text \<open>
  \<open>image.resize(size, Image.LANCZOS)\<close>; the library raises \<open>ValueError\<close> for a
  size that is not positive.
\<close>

definition resize :: "int \<times> int \<Rightarrow> image \<Rightarrow> error + image" where
  "resize sz img =
     (if fst sz \<le> 0 \<or> snd sz \<le> 0 then Inl ValueError
      else Inr (img\<lparr>img_size := sz, img_pixels := Resized_lanczos sz (img_pixels img)\<rparr>))"

definition make_square :: "image \<Rightarrow> int \<Rightarrow> error + image" where
  "make_square img size' =
     (let img = (if img_mode img \<in> {ascii ''RGBA'', ascii ''LA''} then
                   (let background = image_new (ascii ''RGB'') (img_size img) (255, 255, 255)
                    in paste background img (last_band img))
                 else if img_mode img \<noteq> ascii ''RGB'' then convert (ascii ''RGB'') img
                 else img);
          (width, height) = img_size img;
          min_side = min width height;
          left = (width - min_side) div 2;
          top' = (height - min_side) div 2;
          right = left + min_side;
          bottom = top' + min_side
      in resize (size', size') (crop (left, top', right, bottom) img))"

text \<open>
  An image has an alpha channel when the last band of its mode is an alpha band;
  among the modes of the library these are \<open>RGBA\<close>, \<open>LA\<close>, \<open>PA\<close>, \<open>RGBa\<close> and
  \<open>La\<close>.
\<close>

definition has_alpha_channel :: "image \<Rightarrow> bool" where
  "has_alpha_channel img \<longleftrightarrow>
     img_mode img \<in> {ascii ''RGBA'', ascii ''LA'', ascii ''PA'', ascii ''RGBa'', ascii ''La''}"

text \<open>
  The pixels before the crop, as the claim words them: flattened onto white for an
  image with an alpha channel, converted to three opaque channels otherwise.
\<close>

definition flattened :: "image \<Rightarrow> pixels" where
  "flattened img =
     (if has_alpha_channel img
      then Pasted (Filled (255, 255, 255)) (img_pixels img) (Last_band (img_pixels img))
      else if img_mode img \<noteq> ascii ''RGB'' then Converted (ascii ''RGB'') (img_pixels img)
      else img_pixels img)"

text \<open>
  Two sample images of sixteen by nine pixels: one of mode \<open>RGBA\<close>, one of mode
  \<open>PA\<close>, a palette with an alpha band.
\<close>

definition wide_logo :: image where
  "wide_logo = \<lparr>img_mode = ascii ''RGBA'', img_size = (16, 9), img_pixels = Decoded [137, 80, 78, 71]\<rparr>"

definition palette_logo :: image where
  "palette_logo = \<lparr>img_mode = ascii ''PA'', img_size = (16, 9), img_pixels = Decoded [73, 73, 42, 0]\<rparr>"

section \<open>Resolving one publisher in fetch_publisher_images.py\<close>

subsection \<open>The network and the state of a run\<close>

text \<open>
  Each function of the source that calls \<open>requests.get\<close> leaves one entry in the
  list of the requests made.
\<close>

datatype request =
    WikiSearch str str
  | WikiPageprops str str
  | WikidataClaims str
  | GetPage str
  | GetImage str
  | BdbaseLogo str
  | BdbaseDetails str

text \<open>
  The replies of the network, \<open>Inl\<close> when \<open>requests.get\<close> raises. For the three
  calls of the wiki interfaces the reply is what the function of the source returns
  from the document received (or the error it raises); for a page it is the status,
  the final URL and the start tags of the text; for an image the status, the
  \<open>Content-Type\<close> header and the steps of \<open>iter_content\<close>; for the two pages of the
  directory site the status and what the patterns of the source find in the text.
  \<open>decode\<close> is \<open>Image.open\<close> followed by \<open>load\<close>, \<open>None\<close> when either raises.
\<close>

record page =
  page_status :: nat
  page_url :: str
  page_tags :: tags

record image_response =
  image_status :: nat
  image_content_type :: "str option"
  image_chunks :: "(error + nat list) list"

record directory_page =
  directory_status :: nat
  directory_logo :: "str option"
  directory_description :: "str option"
  directory_website :: "str option"

record web =
  search_reply :: "str \<Rightarrow> str \<Rightarrow> error + str option"
  pageprops_reply :: "str \<Rightarrow> str \<Rightarrow> error + str option"
  claims_reply :: "str \<Rightarrow> error + (str \<rightharpoonup> str option list)"
  page_reply :: "str \<Rightarrow> error + page"
  image_reply :: "str \<Rightarrow> error + image_response"
  directory_reply :: "str \<Rightarrow> error + directory_page"
  decode :: "nat list \<Rightarrow> image option"

text \<open>
  The state of a run: the requests made so far, the cache in memory and the state
  of its file, the rows of the report, the \<open>folder.jpg\<close> files by path, the calls of
  \<open>update_folder_info\<close> (path, description, website) and the pauses of
  \<open>time.sleep\<close>. Directories and printed lines are left out.
\<close>

record world =
  w_requests :: "request list"
  w_cache :: "str \<rightharpoonup> info"
  w_cache_file :: "info file_state"
  w_report :: "str option list list"
  w_images :: "str \<rightharpoonup> image"
  w_folder_infos :: "(str \<times> str option \<times> str option) list"
  w_sleeps :: "real list"

definition sent :: "request \<Rightarrow> world \<Rightarrow> world" where
  "sent r w = w\<lparr>w_requests := w_requests w @ [r]\<rparr>"

text \<open>A step that may raise, followed by the rest when it does not.\<close>

definition and_then ::
  "(error + 'a) \<times> world \<Rightarrow> ('a \<Rightarrow> world \<Rightarrow> (error + 'b) \<times> world) \<Rightarrow> (error + 'b) \<times> world"
where
  "and_then step rest = (case step of (Inl e, w) \<Rightarrow> (Inl e, w) | (Inr x, w) \<Rightarrow> rest x w)"

text \<open>\<open>resp.raise_for_status()\<close> raises for the statuses from 400 to 599.\<close>

definition raises_for_status :: "nat \<Rightarrow> bool" where
  "raises_for_status code \<longleftrightarrow> 400 \<le> code \<and> code < 600"

subsection \<open>Metadata\<close>

definition wiki_search :: "web \<Rightarrow> str \<Rightarrow> str \<Rightarrow> world \<Rightarrow> (error + str option) \<times> world" where
  "wiki_search net name lang w = (search_reply net name lang, sent (WikiSearch name lang) w)"

definition wiki_pageprops :: "web \<Rightarrow> str \<Rightarrow> str \<Rightarrow> world \<Rightarrow> (error + str option) \<times> world" where
  "wiki_pageprops net title lang w = (pageprops_reply net title lang, sent (WikiPageprops title lang) w)"

definition wikidata_claims ::
  "web \<Rightarrow> str \<Rightarrow> world \<Rightarrow> (error + (str \<rightharpoonup> str option list)) \<times> world"
where
  "wikidata_claims net qid w = (claims_reply net qid, sent (WikidataClaims qid) w)"

text \<open>
  \<open>first_claim_value\<close>: the claims map a property to its statements, each given by
  the value of its main snak, \<open>None\<close> when it has none.
\<close>

definition first_claim_value :: "(str \<rightharpoonup> str option list) \<Rightarrow> str \<Rightarrow> str option" where
  "first_claim_value claims prop =
     (case claims prop of None \<Rightarrow> None | Some [] \<Rightarrow> None | Some (v # vs) \<Rightarrow> v)"

definition resolve_publisher_info :: "web \<Rightarrow> str \<Rightarrow> str \<Rightarrow> world \<Rightarrow> (error + info) \<times> world" where
  "resolve_publisher_info net name lang w =
     and_then (wiki_search net name lang w) (\<lambda>title w.
     and_then (if \<not> truthy title \<and> lang \<noteq> ascii ''en'' then
                 and_then (wiki_search net name (ascii ''en'') w) (\<lambda>title w.
                   (Inr (title, if truthy title then ascii ''en'' else lang), w))
               else (Inr (title, lang), w)) (\<lambda>(title, lang) w.
     if \<not> truthy title then
       (Inr [(ascii ''wiki_title'', None), (ascii ''wiki_lang'', Some lang), (ascii ''qid'', None),
             (ascii ''official_url'', None), (ascii ''logo_filename'', None)], w)
     else
       and_then (wiki_pageprops net (or_empty title) lang w) (\<lambda>qid w.
       if \<not> truthy qid then
         (Inr [(ascii ''wiki_title'', title), (ascii ''wiki_lang'', Some lang), (ascii ''qid'', None),
               (ascii ''official_url'', None), (ascii ''logo_filename'', None)], w)
       else
         and_then (wikidata_claims net (or_empty qid) w) (\<lambda>claims w.
           let official_url = first_claim_value claims (ascii ''P856'');
               logo_filename = py_or (first_claim_value claims (ascii ''P154''))
                                     (first_claim_value claims (ascii ''P18''))
           in (Inr [(ascii ''wiki_title'', title), (ascii ''wiki_lang'', Some lang), (ascii ''qid'', qid),
                    (ascii ''official_url'', official_url),
                    (ascii ''logo_filename'', logo_filename)], w)))))"

subsection \<open>Downloading an image\<close>

text \<open>
  The loop over \<open>iter_content\<close>, whose iterator gives a chunk or raises at each
  step: an empty chunk ends the loop, a total above \<open>max_bytes\<close> makes
  \<open>download_image\<close> return \<open>None\<close>, and an error of the iterator is raised.
\<close>

fun read_chunks ::
  "nat \<Rightarrow> (error + nat list) list \<Rightarrow> nat \<Rightarrow> nat list \<Rightarrow> error + nat list option"
where
  "read_chunks max_bytes [] downloaded data = Inr (Some data)"
| "read_chunks max_bytes (Inl e # rest) downloaded data = Inl e"
| "read_chunks max_bytes (Inr chunk # rest) downloaded data =
     (if chunk = [] then Inr (Some data)
      else let downloaded = downloaded + length chunk
           in if downloaded > max_bytes then Inr None
              else read_chunks max_bytes rest downloaded (data @ chunk))"

text \<open>What \<open>download_image\<close> returns or raises for a URL, with the default \<open>max_bytes\<close>.\<close>

definition downloaded_image :: "web \<Rightarrow> str \<Rightarrow> error + image option" where
  "downloaded_image net u =
     (case image_reply net u of
        Inl e \<Rightarrow> Inl e
      | Inr resp \<Rightarrow>
          if raises_for_status (image_status resp) then Inl HTTPError
          else let content_type = lower (or_empty (image_content_type resp))
               in if sublist (ascii ''image/svg'') content_type then Inr None
                  else case read_chunks (5 * 1024 * 1024) (image_chunks resp) 0 [] of
                         Inl e \<Rightarrow> Inl e
                       | Inr None \<Rightarrow> Inr None
                       | Inr (Some data) \<Rightarrow> Inr (decode net data))"

definition download_image :: "web \<Rightarrow> str \<Rightarrow> world \<Rightarrow> (error + image option) \<times> world" where
  "download_image net u w = (downloaded_image net u, sent (GetImage u) w)"

subsection \<open>The three sources of an image\<close>

definition fetch_html_candidates ::
  "library \<Rightarrow> web \<Rightarrow> str \<Rightarrow> world \<Rightarrow> (error + candidate list) \<times> world"
where
  "fetch_html_candidates lib net u w =
     (case page_reply net u of
        Inl e \<Rightarrow> (Inl e, sent (GetPage u) w)
      | Inr resp \<Rightarrow>
          if raises_for_status (page_status resp) then (Inl HTTPError, sent (GetPage u) w)
          else (ranked_candidates (lib_urljoin lib) (page_url resp) (page_tags resp),
                sent (GetPage u) w))"

text \<open>
  The loop of \<open>find_image_from_official_site\<close> over the ranked candidates: an
  exception of \<open>download_image\<close> counts as no image.
\<close>

fun try_candidates :: "web \<Rightarrow> candidate list \<Rightarrow> world \<Rightarrow> (image option \<times> str option) \<times> world" where
  "try_candidates net [] w = ((None, None), w)"
| "try_candidates net (candidate # rest) w =
     (case download_image net (cand_url candidate) w of
        (Inr (Some img), w) \<Rightarrow> ((Some img, Some (cand_url candidate)), w)
      | (Inr None, w) \<Rightarrow> try_candidates net rest w
      | (Inl e, w) \<Rightarrow> try_candidates net rest w)"

definition find_image_from_official_site ::
  "library \<Rightarrow> web \<Rightarrow> str option \<Rightarrow> world \<Rightarrow> (image option \<times> str option) \<times> world"
where
  "find_image_from_official_site lib net u w =
     (if \<not> truthy u then ((None, None), w)
      else case fetch_html_candidates lib net (or_empty u) w of
             (Inl e, w) \<Rightarrow> ((None, None), w)
           | (Inr cands, w) \<Rightarrow> try_candidates net cands w)"

definition wikimedia_file_url :: "library \<Rightarrow> str \<Rightarrow> error + str" where
  "wikimedia_file_url lib filename =
     (case lib_quote lib filename of
        Inl e \<Rightarrow> Inl e
      | Inr quoted \<Rightarrow>
          Inr (ascii ''https://commons.wikimedia.org/wiki/Special:FilePath/'' @ quoted))"

text \<open>
  \<open>find_image_from_wikimedia\<close>. The call of \<open>wikimedia_file_url\<close> stands before
  the \<open>try\<close>, so an error of \<open>quote\<close> is raised.
\<close>

definition find_image_from_wikimedia ::
  "library \<Rightarrow> web \<Rightarrow> str option \<Rightarrow> world
   \<Rightarrow> (error + image option \<times> str option) \<times> world"
where
  "find_image_from_wikimedia lib net filename w =
     (if \<not> truthy filename then (Inr (None, None), w)
      else case wikimedia_file_url lib (or_empty filename) of
             Inl e \<Rightarrow> (Inl e, w)
           | Inr file_url \<Rightarrow>
               (case download_image net file_url w of
                  (Inl e, w) \<Rightarrow> (Inr (None, None), w)
                | (Inr None, w) \<Rightarrow> (Inr (None, None), w)
                | (Inr (Some img), w) \<Rightarrow> (Inr (Some img, Some file_url), w)))"

text \<open>\<open>fetch_bdbase_logo_by_slug\<close>: \<open>None\<close> unless the status is 200.\<close>

definition fetch_bdbase_logo_by_slug :: "web \<Rightarrow> str \<Rightarrow> world \<Rightarrow> (error + str option) \<times> world" where
  "fetch_bdbase_logo_by_slug net slug w =
     (case directory_reply net (ascii ''https://www.bdbase.fr/editeurs/'' @ slug) of
        Inl e \<Rightarrow> (Inl e, sent (BdbaseLogo slug) w)
      | Inr resp \<Rightarrow>
          if directory_status resp \<noteq> 200 then (Inr None, sent (BdbaseLogo slug) w)
          else (Inr (directory_logo resp), sent (BdbaseLogo slug) w))"

text \<open>
  \<open>find_image_from_bdbase\<close>. An empty \<open>bdbase_map\<close> gives \<open>None\<close> for every key, so
  the test \<open>if bdbase_map\<close> changes nothing. The call of
  \<open>fetch_bdbase_logo_by_slug\<close> stands outside the \<open>try\<close>, so its error is raised.
\<close>

definition find_image_from_bdbase ::
  "library \<Rightarrow> web \<Rightarrow> str \<Rightarrow> (str \<rightharpoonup> str) \<Rightarrow> world
   \<Rightarrow> (error + image option \<times> str option) \<times> world"
where
  "find_image_from_bdbase lib net name bdbase_map w =
     (let key = normalize_key lib name;
          u = bdbase_map key
      in and_then (if \<not> truthy u
                   then fetch_bdbase_logo_by_slug net (slugify_bdbase lib name) w
                   else (Inr u, w)) (\<lambda>u w.
         if \<not> truthy u then (Inr (None, None), w)
         else case download_image net (or_empty u) w of
                (Inl e, w) \<Rightarrow> (Inr (None, None), w)
              | (Inr None, w) \<Rightarrow> (Inr (None, None), w)
              | (Inr (Some img), w) \<Rightarrow> (Inr (Some img, u), w)))"

subsection \<open>The body of the loop of main\<close>

datatype preference = Official | Wikimedia

record options =
  opt_output_root :: str
  opt_size :: int
  opt_delay :: real
  opt_prefer :: preference
  opt_dry_run :: bool
  opt_use_bdbase :: bool
  opt_update_folder_info :: bool

definition save_cache :: "world \<Rightarrow> world" where
  "save_cache w = w\<lparr>w_cache_file := Document (w_cache w)\<rparr>"

definition write_report_row :: "str option list \<Rightarrow> world \<Rightarrow> world" where
  "write_report_row row w = w\<lparr>w_report := w_report w @ [row]\<rparr>"

definition update_folder_info :: "str \<Rightarrow> str option \<Rightarrow> str option \<Rightarrow> world \<Rightarrow> world" where
  "update_folder_info folder_info_path description website w =
     w\<lparr>w_folder_infos := w_folder_infos w @ [(folder_info_path, description, website)]\<rparr>"

definition time_sleep :: "real \<Rightarrow> world \<Rightarrow> world" where
  "time_sleep d w = w\<lparr>w_sleeps := w_sleeps w @ [d]\<rparr>"

text \<open>
  \<open>fetch_bdbase_details\<close>: \<open>None\<close> unless the status is 200, else the URL of the
  page with the description and the website found in it.
\<close>

definition fetch_bdbase_details ::
  "library \<Rightarrow> web \<Rightarrow> str \<Rightarrow> world \<Rightarrow> (error + (str \<times> str option \<times> str option) option) \<times> world"
where
  "fetch_bdbase_details lib net name w =
     (let slug = slugify_bdbase lib name;
          u = ascii ''https://www.bdbase.fr/editeurs/'' @ slug
      in case directory_reply net u of
           Inl e \<Rightarrow> (Inl e, sent (BdbaseDetails slug) w)
         | Inr resp \<Rightarrow>
             if directory_status resp \<noteq> 200 then (Inr None, sent (BdbaseDetails slug) w)
             else (Inr (Some (u, directory_description resp, directory_website resp)),
                   sent (BdbaseDetails slug) w))"

text \<open>
  Lines 569 to 573: the record of the cache when there is a non-empty one, else the
  record resolved from the network, stored and saved.
\<close>

definition cached_info :: "web \<Rightarrow> str \<Rightarrow> world \<Rightarrow> (error + info) \<times> world" where
  "cached_info net name w =
     (let cached = w_cache w name
      in if cached = None \<or> cached = Some [] then
           and_then (resolve_publisher_info net name (ascii ''fr'') w) (\<lambda>info w.
             (Inr info, save_cache (w\<lparr>w_cache := (w_cache w)(name \<mapsto> info)\<rparr>)))
         else (Inr (case cached of Some info \<Rightarrow> info | None \<Rightarrow> []), w))"

text \<open>Lines 575 to 587: the description and the website of the directory site.\<close>

definition supplement ::
  "library \<Rightarrow> web \<Rightarrow> options \<Rightarrow> str \<Rightarrow> info \<Rightarrow> world
   \<Rightarrow> (error + info \<times> str option \<times> str option) \<times> world"
where
  "supplement lib net opts name info w =
     (if opt_update_folder_info opts \<and> opt_use_bdbase opts then
        and_then
          (if map_of info (ascii ''bdbase_description'') = None
              \<or> map_of info (ascii ''bdbase_website'') = None then
             and_then (fetch_bdbase_details lib net name w) (\<lambda>details w.
               case details of
                 None \<Rightarrow> (Inr info, w)
               | Some (bdbase_url, description, website) \<Rightarrow>
                   let info = AList.update (ascii ''bdbase_description'') description info;
                       info = AList.update (ascii ''bdbase_website'') website info;
                       info = AList.update (ascii ''bdbase_url'') (Some bdbase_url) info
                   in (Inr info, save_cache (w\<lparr>w_cache := (w_cache w)(name \<mapsto> info)\<rparr>)))
           else (Inr info, w))
          (\<lambda>info w. (Inr (info, dict_get (map_of info) (ascii ''bdbase_description''),
                           dict_get (map_of info) (ascii ''bdbase_website'')), w))
      else (Inr (info, None, None), w))"

text \<open>Lines 597 to 611: the sources of an image in the order of \<open>--prefer\<close>.\<close>

definition acquire_image ::
  "library \<Rightarrow> web \<Rightarrow> options \<Rightarrow> (str \<rightharpoonup> str) \<Rightarrow> str \<Rightarrow> info \<Rightarrow> world
   \<Rightarrow> (error + image option \<times> str option) \<times> world"
where
  "acquire_image lib net opts bdbase_map name info w =
     (if opt_prefer opts = Official then
        (case find_image_from_official_site lib net (dict_get (map_of info) (ascii ''official_url'')) w of
           (found, w) \<Rightarrow>
             and_then (if fst found = None \<and> opt_use_bdbase opts
                       then find_image_from_bdbase lib net name bdbase_map w
                       else (Inr found, w)) (\<lambda>found w.
               if fst found = None
               then find_image_from_wikimedia lib net
                      (dict_get (map_of info) (ascii ''logo_filename'')) w
               else (Inr found, w)))
      else
        and_then (find_image_from_wikimedia lib net
                    (dict_get (map_of info) (ascii ''logo_filename'')) w) (\<lambda>found w.
        and_then (if fst found = None \<and> opt_use_bdbase opts
                  then find_image_from_bdbase lib net name bdbase_map w
                  else (Inr found, w)) (\<lambda>found w.
          if fst found = None
          then (case find_image_from_official_site lib net
                       (dict_get (map_of info) (ascii ''official_url'')) w of
                  (found, w) \<Rightarrow> (Inr found, w))
          else (Inr found, w))))"

text \<open>The row of the report for a publisher whose image was looked for.\<close>

definition report_row ::
  "str \<Rightarrow> str \<Rightarrow> info \<Rightarrow> str option \<Rightarrow> str \<Rightarrow> string \<Rightarrow> str option list"
where
  "report_row name safe_name info source_url target_image status =
     [Some name, Some safe_name,
      dict_get (map_of info) (ascii ''wiki_title''), dict_get (map_of info) (ascii ''wiki_lang''),
      dict_get (map_of info) (ascii ''qid''), dict_get (map_of info) (ascii ''official_url''),
      dict_get (map_of info) (ascii ''logo_filename''),
      source_url, Some target_image, Some (ascii status)]"

definition exists_row :: "str \<Rightarrow> str \<Rightarrow> str \<Rightarrow> str option list" where
  "exists_row name safe_name target_image =
     [Some name, Some safe_name, Some [], Some [], Some [], Some [], Some [], Some [],
      Some target_image, Some (ascii ''exists'')]"

text \<open>Lines 557 to 654, for one name of the list.\<close>

definition process_publisher ::
  "library \<Rightarrow> web \<Rightarrow> options \<Rightarrow> (str \<rightharpoonup> str) \<Rightarrow> str \<Rightarrow> world \<Rightarrow> (error + unit) \<times> world"
where
  "process_publisher lib net opts bdbase_map name w =
     (let safe_name = sanitize_folder_name name;
          target_dir = lib_path_join lib [opt_output_root opts, safe_name];
          target_image = lib_path_join lib [target_dir, ascii ''folder.jpg''];
          folder_info_path = lib_path_join lib [target_dir, ascii ''folder-info.html''];
          image_exists = (w_images w target_image \<noteq> None)
      in if image_exists \<and> \<not> opt_update_folder_info opts then
           (Inr (), write_report_row (exists_row name safe_name target_image) w)
         else
           and_then (cached_info net name w) (\<lambda>info w.
           and_then (supplement lib net opts name info w) (\<lambda>(info, description, website) w.
           let wanted = opt_update_folder_info opts \<and> (truthy description \<or> truthy website)
           in if image_exists then
                (let w = (if wanted then update_folder_info folder_info_path description website w
                          else w)
                 in (Inr (), write_report_row (exists_row name safe_name target_image) w))
              else
                and_then (acquire_image lib net opts bdbase_map name info w) (\<lambda>(found, source_url) w.
                case found of
                  None \<Rightarrow>
                    (let w = write_report_row
                               (report_row name safe_name info (Some (or_empty source_url))
                                  target_image ''no_image'') w;
                         w = (if wanted then update_folder_info folder_info_path description website w
                              else w)
                     in (Inr (), time_sleep (opt_delay opts) w))
                | Some img \<Rightarrow>
                    and_then
                      (if \<not> opt_dry_run opts then
                         (case make_square img (opt_size opts) of
                            Inl e \<Rightarrow> (Inl e, w)
                          | Inr squared \<Rightarrow>
                              (let w = w\<lparr>w_images := (w_images w)(target_image \<mapsto> squared)\<rparr>;
                                   w = (if wanted
                                        then update_folder_info folder_info_path description website w
                                        else w)
                               in (Inr (), w)))
                       else (Inr (), w)) (\<lambda>finished w.
                      let w = write_report_row
                                (report_row name safe_name info source_url target_image
                                   (if \<not> opt_dry_run opts then ''ok'' else ''dry_run'')) w
                      in (Inr (), time_sleep (opt_delay opts) w))))))"

text \<open>
  The path of the image of a publisher, and the condition of lines 577 and 578
  under which \<open>fetch_bdbase_details\<close> is called.
\<close>

definition folder_jpg :: "library \<Rightarrow> options \<Rightarrow> str \<Rightarrow> str" where
  "folder_jpg lib opts name =
     lib_path_join lib [lib_path_join lib [opt_output_root opts, sanitize_folder_name name],
                        ascii ''folder.jpg'']"

definition details_wanted :: "options \<Rightarrow> info \<Rightarrow> bool" where
  "details_wanted opts info \<longleftrightarrow>
     opt_update_folder_info opts \<and> opt_use_bdbase opts
     \<and> (map_of info (ascii ''bdbase_description'') = None
        \<or> map_of info (ascii ''bdbase_website'') = None)"

text \<open>The metadata requests are those of \<open>resolve_publisher_info\<close>.\<close>

fun is_metadata :: "request \<Rightarrow> bool" where
  "is_metadata (WikiSearch name lang) = True"
| "is_metadata (WikiPageprops title lang) = True"
| "is_metadata (WikidataClaims qid) = True"
| "is_metadata r = False"

definition metadata_requests :: "world \<Rightarrow> request list" where
  "metadata_requests w = filter is_metadata (w_requests w)"

subsection \<open>A sample publisher\<close>

text \<open>
  Acme Comics: a record of the cache with an official site and a logo file; a
  network on which the official site answers with a page and every image URL with a
  small PNG that decodes, and a network on which every request fails.
\<close>

definition acme_info :: info where
  "acme_info =
     [(ascii ''wiki_title'', Some (ascii ''Acme Comics'')), (ascii ''wiki_lang'', Some (ascii ''fr'')),
      (ascii ''qid'', Some (ascii ''Q1'')), (ascii ''official_url'', Some acme_site),
      (ascii ''logo_filename'', Some (ascii ''Acme.png''))]"

definition small_png :: image_response where
  "small_png = \<lparr>image_status = 200, image_content_type = Some (ascii ''image/png''),
                 image_chunks = [Inr [137, 80, 78, 71]]\<rparr>"

definition decoded_logo :: "nat list \<Rightarrow> image option" where
  "decoded_logo data =
     Some \<lparr>img_mode = ascii ''RGBA'', img_size = (16, 9), img_pixels = Decoded data\<rparr>"

definition site_with :: "tags \<Rightarrow> web" where
  "site_with ts =
     \<lparr>search_reply = (\<lambda>name lang. Inl ConnectionError),
      pageprops_reply = (\<lambda>title lang. Inl ConnectionError),
      claims_reply = (\<lambda>qid. Inl ConnectionError),
      page_reply = (\<lambda>u. if u = acme_site
                         then Inr \<lparr>page_status = 200, page_url = acme_site, page_tags = ts\<rparr>
                         else Inl ConnectionError),
      image_reply = (\<lambda>u. Inr small_png),
      directory_reply = (\<lambda>u. Inl ConnectionError),
      decode = decoded_logo\<rparr>"

definition web_down :: web where
  "web_down =
     \<lparr>search_reply = (\<lambda>name lang. Inl ConnectionError),
      pageprops_reply = (\<lambda>title lang. Inl ConnectionError),
      claims_reply = (\<lambda>qid. Inl ConnectionError),
      page_reply = (\<lambda>u. Inl ConnectionError),
      image_reply = (\<lambda>u. Inl ConnectionError),
      directory_reply = (\<lambda>u. Inl ConnectionError),
      decode = (\<lambda>data. None)\<rparr>"

definition acme_options :: options where
  "acme_options =
     \<lparr>opt_output_root = ascii ''out'', opt_size = 312, opt_delay = 1, opt_prefer = Official,
      opt_dry_run = False, opt_use_bdbase = False, opt_update_folder_info = False\<rparr>"

definition acme_world :: world where
  "acme_world =
     \<lparr>w_requests = [], w_cache = [ascii ''Acme Comics'' \<mapsto> acme_info],
      w_cache_file = Document [ascii ''Acme Comics'' \<mapsto> acme_info], w_report = [],
      w_images = Map.empty, w_folder_infos = [], w_sleeps = []\<rparr>"

text \<open>
  The same publisher after a run that wrote its image, and the options of a run
  that asks for the details of the directory site.
\<close>

definition acme_done_world :: world where
  "acme_done_world =
     acme_world\<lparr>w_images := [ascii ''out/Acme Comics/folder.jpg'' \<mapsto> wide_logo]\<rparr>"

definition details_options :: options where
  "details_options = acme_options\<lparr>opt_use_bdbase := True, opt_update_folder_info := True\<rparr>"

section \<open>Properties of the throttled session\<close>

lemma py_min_eq: "py_min a b = min a b"
  by (simp add: py_min_def min_def)

lemma py_max_eq: "py_max a b = max a b"
  by (simp add: py_max_def max_def)

text \<open>
  Claim C7. For a delay range with \<open>lo \<le> hi\<close> and any draw of the normal
  distribution, the delay returned by \<open>get_random_delay\<close> lies in \<open>[lo, hi]\<close>.
\<close>

theorem get_random_delay_in_range:
  "lo \<le> hi \<Longrightarrow>
     lo \<le> get_random_delay normalvariate lo hi \<and> get_random_delay normalvariate lo hi \<le> hi"
  by (simp add: get_random_delay_def Let_def py_min_eq py_max_eq)

theorem get_random_delay_in_range_witness:
  "(1::real) \<le> 3 \<and> 1 \<le> get_random_delay far_draw 1 3 \<and> get_random_delay far_draw 1 3 \<le> 3
     \<and> get_random_delay far_draw 1 3 = 3"
proof -
  have h: "(1::real) \<le> 3" by simp
  have v: "get_random_delay far_draw 1 3 = 3"
    by (simp add: get_random_delay_def Let_def py_min_def py_max_def far_draw_def)
  show ?thesis using h v get_random_delay_in_range [OF h, of far_draw] by simp
qed

text \<open>
  When every dispatch fails with a connection error, the loop never raises: the test
  \<open>attempt \<ge> attempts\<close> is false for every attempt number of \<open>range(1, attempts)\<close>,
  so the loop runs out and the method returns \<open>None\<close> after one dispatch per attempt
  number.
\<close>

lemma request_loop_all_fail:
  assumes "\<forall>k. reply_of net k = Raises ConnectionError" and "\<forall>a \<in> set as. a < attempts"
  shows "fst (request_loop args net netloc attempts as s) = Inr None
         \<and> dispatched (snd (request_loop args net netloc attempts as s)) = dispatched s + length as"
  using assms
proof (induction as arbitrary: s)
  case Nil
  then show ?case by simp
next
  case (Cons a as)
  then show ?case
    by (simp add: Let_def original_request_def sleep_def split: prod.splits)
qed

lemma request_all_fail:
  assumes "\<forall>k. reply_of net k = Raises ConnectionError"
  shows "fst (request args net netloc_of url s) = Inr None
         \<and> dispatched (snd (request args net netloc_of url s))
             = dispatched s + nat (max 1 (request_attempts args) - 1)"
proof -
  have "\<forall>a \<in> set [1..max 1 (request_attempts args) - 1]. a < max 1 (request_attempts args)"
    by auto
  from request_loop_all_fail [OF assms this]
  show ?thesis by (simp add: request_def Let_def)
qed

text \<open>
  Claim C1. With \<open>request_attempts = 3\<close> and a network on which every dispatch
  raises a connection error, \<open>request\<close> dispatches twice and returns \<open>None\<close>; the claim
  says three dispatches and the connection error raised.
\<close>

theorem request_network_down_returns_None:
  "fst (request default_arguments network_down id (ascii ''https://h/p'') new_session) = Inr None
   \<and> dispatched (snd (request default_arguments network_down id (ascii ''https://h/p'') new_session)) = 2"
proof -
  have "\<forall>k. reply_of network_down k = Raises ConnectionError"
    by (simp add: network_down_def)
  from request_all_fail [OF this, of default_arguments id "ascii ''https://h/p''" new_session]
  show ?thesis by (simp add: default_arguments_def new_session_def)
qed

section \<open>Properties of the keys\<close>

lemma sub_runs_fixed:
  assumes "\<forall>c \<in> set t. P c \<longrightarrow> c = 32" and "\<not> sublist [32, 32] t"
  shows "sub_runs P [32] t = t"
  using assms
proof (induction t)
  case Nil
  then show ?case by simp
next
  case (Cons c cs)
  have rest: "\<not> sublist [32, 32] cs"
    using Cons.prems(2) by (auto simp: sublist_Cons_right)
  have ih: "sub_runs P [32] cs = cs"
    using Cons.IH Cons.prems(1) rest by simp
  show ?case
  proof (cases "P c")
    case False
    then show ?thesis using ih by simp
  next
    case True
    then have c: "c = 32" using Cons.prems(1) by simp
    have "dropWhile P cs = cs"
    proof (cases cs)
      case Nil
      then show ?thesis by simp
    next
      case (Cons d ds)
      then have "d \<noteq> 32" using c \<open>\<not> sublist [32, 32] (c # cs)\<close>
        by (auto simp: sublist_Cons_right)
      then have "\<not> P d" using \<open>\<forall>c \<in> set (c # cs). P c \<longrightarrow> c = 32\<close> Cons by auto
      then show ?thesis using Cons by simp
    qed
    then show ?thesis using True c ih by simp
  qed
qed

lemma sub_runs_chars:
  "set (sub_runs P rep t) \<subseteq> {c \<in> set t. \<not> P c} \<union> set rep"
proof (induction P rep t rule: sub_runs.induct)
  case (1 P rep)
  then show ?case by simp
next
  case (2 P rep c cs)
  have "set (dropWhile P cs) \<subseteq> set cs" by (auto dest: set_dropWhileD)
  with 2 show ?case by (auto split: if_splits)
qed

lemma sub_runs_no_space_first:
  assumes "P 32" and "t = [] \<or> \<not> P (hd t)"
  shows "\<not> prefix [32] (sub_runs P [32] t)"
  using assms by (cases t) (auto simp: prefix_Cons)

lemma sub_runs_single:
  assumes "P 32"
  shows "\<not> sublist [32, 32] (sub_runs P [32] t)"
  using assms
proof (induction P "[32::nat]" t rule: sub_runs.induct)
  case (1 P)
  then show ?case by simp
next
  case (2 P c cs)
  show ?case
  proof (cases "P c")
    case False
    then show ?thesis using 2 by (auto simp: sublist_Cons_right prefix_Cons)
  next
    case True
    have "dropWhile P cs = [] \<or> \<not> P (hd (dropWhile P cs))"
      using hd_dropWhile [of P cs] by blast
    from sub_runs_no_space_first [OF \<open>P 32\<close> this]
    show ?thesis using 2 True by (auto simp: sublist_Cons_right prefix_Cons)
  qed
qed

lemma strip_prefix_of: "\<exists>zs. dropWhile P t = strip P t @ zs"
proof -
  have "rev (dropWhile P t) = takeWhile P (rev (dropWhile P t)) @ dropWhile P (rev (dropWhile P t))"
    by simp
  then have "dropWhile P t = rev (dropWhile P (rev (dropWhile P t))) @ rev (takeWhile P (rev (dropWhile P t)))"
    by (metis rev_append rev_rev_ident)
  then show ?thesis unfolding strip_def by blast
qed

lemma strip_sublist: "sublist (strip P t) t"
proof -
  obtain zs where "dropWhile P t = strip P t @ zs" using strip_prefix_of by blast
  moreover have "t = takeWhile P t @ dropWhile P t" by simp
  ultimately have "t = takeWhile P t @ strip P t @ zs" by simp
  then show ?thesis unfolding sublist_def by blast
qed

lemma strip_ends:
  assumes "P 32"
  shows "\<not> prefix [32] (strip P t)" and "\<not> suffix [32] (strip P t)"
proof -
  obtain zs where z: "dropWhile P t = strip P t @ zs" using strip_prefix_of by blast
  show "\<not> prefix [32] (strip P t)"
  proof
    assume "prefix [32] (strip P t)"
    then obtain r where "strip P t = 32 # r" by (auto simp: prefix_def)
    with z have "hd (dropWhile P t) = 32" "dropWhile P t \<noteq> []" by auto
    with hd_dropWhile [of P t] assms show False by auto
  qed
  show "\<not> suffix [32] (strip P t)"
  proof
    assume "suffix [32] (strip P t)"
    then obtain r where "strip P t = r @ [32]" by (auto simp: suffix_def)
    then have "dropWhile P (rev (dropWhile P t)) = 32 # rev r"
      unfolding strip_def by (metis rev.simps(2) rev_rev_ident rev_append append_Nil rev_singleton_conv)
    with hd_dropWhile [of P "rev (dropWhile P t)"] assms show False by auto
  qed
qed

lemma normalize_key_clean: "clean_key (normalize_key lib name)"
proof -
  define v where "v = filter (\<lambda>c. \<not> is_apostrophe c) (replace 38 (ascii ''and'')
      (lower (filter (\<lambda>c. lib_combining lib c = 0) (lib_nfkd lib name))))"
  define r where "r = sub_runs (\<lambda>c. \<not> is_az09 c) [32] v"
  define u where "u = strip is_space r"
  have sp: "is_space 32" "\<not> is_az09 32" by (simp_all add: is_space_def is_az09_def)
  have r_chars: "set r \<subseteq> {c. is_az09 c} \<union> {32}"
    unfolding r_def using sub_runs_chars [of "\<lambda>c. \<not> is_az09 c" "[32]" v] by auto
  have r_single: "\<not> sublist [32, 32] r"
    unfolding r_def by (rule sub_runs_single) (simp add: sp)
  have u_sub: "sublist u r" unfolding u_def by (rule strip_sublist)
  then have u_chars: "set u \<subseteq> {c. is_az09 c} \<union> {32}"
    using r_chars set_mono_sublist by blast
  have u_single: "\<not> sublist [32, 32] u"
    using u_sub r_single sublist_order.order_trans by blast
  have u_ends: "\<not> prefix [32] u" "\<not> suffix [32] u"
    unfolding u_def using strip_ends [of is_space r] sp by auto
  have space_only: "\<forall>c \<in> set u. is_space c \<longrightarrow> c = 32"
    using u_chars by (auto simp: is_space_def is_az09_def)
  have final: "sub_runs is_space [32] u = u"
    by (rule sub_runs_fixed [OF space_only u_single])
  have nk: "normalize_key lib name = u"
    unfolding normalize_key_def Let_def using final
    by (simp add: u_def r_def v_def ascii_def)
  show ?thesis
    unfolding nk clean_key_def using u_chars u_single u_ends
    by (auto simp: list_all_iff)
qed


lemma strip_fixed:
  assumes "t = [] \<or> \<not> P (hd t)" and "t = [] \<or> \<not> P (last t)"
  shows "strip P t = t"
proof (cases t)
  case Nil
  then show ?thesis by (simp add: strip_def)
next
  case (Cons c cs)
  then have 1: "dropWhile P t = t" using assms(1) by simp
  have "rev t \<noteq> []" "hd (rev t) = last t" using Cons by (simp_all add: hd_rev)
  then have 2: "dropWhile P (rev t) = rev t" using assms(2) Cons by (cases "rev t") auto
  show ?thesis by (simp add: strip_def 1 2)
qed

lemma replace_absent: "c \<notin> set t \<Longrightarrow> replace c rep t = t"
  by (induction t) (auto simp: replace_def)

lemma normalize_key_fixed:
  assumes "ascii_fixed lib" and "clean_key y"
  shows "normalize_key lib y = y"
proof -
  have chars: "\<forall>c \<in> set y. is_az09 c \<or> c = 32"
    and single: "\<not> sublist [32, 32] y"
    and first: "\<not> prefix [32] y" and final: "\<not> suffix [32] y"
    using assms(2) by (auto simp: clean_key_def list_all_iff)
  have small: "list_all (\<lambda>c. c < 128) y"
    using chars by (auto simp: list_all_iff is_az09_def)
  have 1: "lib_nfkd lib y = y"
    using assms(1) small by (simp add: ascii_fixed_def)
  have 2: "filter (\<lambda>c. lib_combining lib c = 0) y = y"
    using assms(1) small by (intro filter_True) (auto simp: ascii_fixed_def list_all_iff)
  have 3: "lower y = y"
    unfolding lower_def using chars by (intro map_idI) (auto simp: lower_cp_def is_az09_def)
  have 4: "replace 38 (ascii ''and'') y = y"
    using chars by (intro replace_absent) (auto simp: is_az09_def)
  have 5: "filter (\<lambda>c. \<not> is_apostrophe c) y = y"
    using chars by (intro filter_True) (auto simp: is_apostrophe_def is_az09_def)
  have 6: "sub_runs (\<lambda>c. \<not> is_az09 c) [32] y = y"
    using chars single by (intro sub_runs_fixed) auto
  have hd_ok: "y = [] \<or> \<not> is_space (hd y)"
  proof (cases y)
    case Nil
    then show ?thesis by simp
  next
    case (Cons c cs)
    then have "c \<noteq> 32" using first by (auto simp: prefix_Cons)
    then show ?thesis using chars Cons by (auto simp: is_space_def is_az09_def)
  qed
  have last_ok: "y = [] \<or> \<not> is_space (last y)"
  proof (cases y rule: rev_cases)
    case Nil
    then show ?thesis by simp
  next
    case (snoc cs c)
    then have "c \<noteq> 32" using final by (auto simp: suffix_def)
    then show ?thesis using chars snoc by (auto simp: is_space_def is_az09_def)
  qed
  have 7: "strip is_space y = y"
    by (rule strip_fixed [OF hd_ok last_ok])
  have 8: "sub_runs is_space [32] y = y"
    using chars single by (intro sub_runs_fixed) (auto simp: is_space_def is_az09_def)
  have sp: "ascii '' '' = [32]" by (simp add: ascii_def)
  show ?thesis
    unfolding normalize_key_def Let_def sp 1 2 3 4 5 6 7 8 ..
qed

lemma ascii_library_fixed: "ascii_fixed ascii_library"
  by (simp add: ascii_fixed_def ascii_library_def)

lemma normalize_key_sample:
  "normalize_key ascii_library (ascii ''  Barb`s & Co.  '') = ascii ''barbs and co''"
  by (simp add: normalize_key_def Let_def ascii_library_def lower_def lower_cp_def replace_def
      is_apostrophe_def is_space_def is_az09_def strip_def ascii_def)

text \<open>
  Claim C9. For every name the key is made of lower-case ASCII letters, digits and
  single spaces, without a space at either end; and normalizing a key again gives
  the same key, the Unicode tables leaving ASCII texts as they are.
\<close>

theorem normalize_key_clean_idempotent:
  "clean_key (normalize_key lib name)
   \<and> (ascii_fixed lib \<longrightarrow> normalize_key lib (normalize_key lib name) = normalize_key lib name)"
  using normalize_key_clean [of lib name] normalize_key_fixed [of lib "normalize_key lib name"]
  by blast

theorem normalize_key_clean_idempotent_witness:
  "ascii_fixed ascii_library
   \<and> normalize_key ascii_library (ascii ''  Barb`s & Co.  '') = ascii ''barbs and co''
   \<and> clean_key (ascii ''barbs and co'')
   \<and> normalize_key ascii_library (ascii ''barbs and co'') = ascii ''barbs and co''"
  using normalize_key_clean_idempotent [of ascii_library "ascii ''  Barb`s & Co.  ''"]
    ascii_library_fixed
  by (simp add: normalize_key_sample)

section \<open>Properties of the resolution cache\<close>

text \<open>
  Claim C3, as stated: loading from a malformed file yields an empty cache and never
  raises. It fails: \<open>json.load\<close> is called without a handler, so its error reaches
  the caller.
\<close>

theorem load_cache_malformed_raises:
  "load_cache malformed_disk (ascii ''_downloads/cache.json'') = Inl JSONDecodeError"
  by (simp add: load_cache_def malformed_disk_def)

text \<open>
  Claim C3, amended. Loading from a missing file yields the empty cache; loading
  from a file that \<open>json.load\<close> reads yields its dictionary; loading from a
  malformed file raises the decoding error of \<open>json.load\<close>.
\<close>

theorem load_cache_by_file_state:
  "(disk cache_path = Missing \<longrightarrow> load_cache disk cache_path = Inr Map.empty)
   \<and> (disk cache_path = Document d \<longrightarrow> load_cache disk cache_path = Inr d)
   \<and> (disk cache_path = Malformed \<longrightarrow> load_cache disk cache_path = Inl JSONDecodeError)"
  by (simp add: load_cache_def)

theorem load_cache_by_file_state_witness:
  "empty_disk (ascii ''_downloads/cache.json'') = Missing
   \<and> load_cache empty_disk (ascii ''_downloads/cache.json'') = Inr Map.empty"
  using load_cache_by_file_state [of empty_disk "ascii ''_downloads/cache.json''"]
  by (simp add: empty_disk_def)

section \<open>Properties of candidate ranking\<close>

subsection \<open>The score of an img tag\<close>

text \<open>
  Claim C10. For all four texts the score of an img tag is an integer between
  \<open>-4\<close> and \<open>12\<close>.
\<close>

theorem score_image_candidate_bounds:
  "- 4 \<le> score_image_candidate u alt klass img_id
   \<and> score_image_candidate u alt klass img_id \<le> 12"
  by (simp add: score_image_candidate_def Let_def)

text \<open>Both bounds are attained.\<close>

lemma score_image_candidate_top:
  "score_image_candidate (ascii ''/brand/header-logo.png'') [] [] [] = 12"
  by (simp add: score_image_candidate_def Let_def endswith_any_def lower_def lower_cp_def
      ascii_def sublist_Cons_right suffix_Cons prefix_Cons)

lemma score_image_candidate_bottom:
  "score_image_candidate (ascii ''/icon.svg'') [] [] [] = - 4"
  by (simp add: score_image_candidate_def Let_def endswith_any_def lower_def lower_cp_def
      ascii_def sublist_Cons_right suffix_Cons prefix_Cons)

text \<open>
  A word without a space lies in the joined text exactly when it lies in one of the
  fields.
\<close>

lemma sublist_separated:
  assumes "sep \<notin> set w" and "w \<noteq> []"
  shows "sublist w (a @ sep # b) \<longleftrightarrow> sublist w a \<or> sublist w b"
proof -
  have no_prefix: "\<not> prefix w (sep # b')" for b'
    using assms by (cases w) (auto simp: prefix_Cons)
  have right: "sublist w (sep # b) \<longleftrightarrow> sublist w b"
    using no_prefix by (simp add: sublist_Cons_right)
  have across: "sublist w a" if "w = w1 @ w2" "suffix w1 a" "prefix w2 (sep # b)" for w1 w2
  proof (cases w2)
    case Nil
    with that show ?thesis by (auto simp: suffix_imp_sublist)
  next
    case (Cons x xs)
    with that have "x = sep" by (simp add: prefix_Cons)
    with Cons that assms show ?thesis by auto
  qed
  show ?thesis
    unfolding sublist_append right using across by blast
qed

lemma lower_append: "lower (a @ b) = lower a @ lower b"
  by (simp add: lower_def)

lemma lower_space: "lower (32 # a) = 32 # lower a"
  by (simp add: lower_def lower_cp_def)

lemma word_in_joined:
  assumes "32 \<notin> set (ascii w)" and "ascii w \<noteq> []"
  shows "sublist (ascii w) (lower (join (ascii '' '') [a, b, c, d])) \<longleftrightarrow> mentions w [a, b, c, d]"
proof -
  have joined: "join (ascii '' '') [a, b, c, d] = a @ 32 # b @ 32 # c @ 32 # d"
    by (simp add: ascii_def)
  show ?thesis
    unfolding joined mentions_def
    by (simp add: lower_append lower_space sublist_separated [OF assms])
qed

lemma score_is_heuristic:
  "score_image_candidate u alt klass img_id = heuristic_score u alt klass img_id"
proof -
  let ?text = "lower (join (ascii '' '') [u, alt, klass, img_id])"
  let ?fields = "[u, alt, klass, img_id]"
  have words:
    "sublist (ascii ''logo'') ?text = mentions ''logo'' ?fields"
    "sublist (ascii ''brand'') ?text = mentions ''brand'' ?fields"
    "sublist (ascii ''header'') ?text = mentions ''header'' ?fields"
    "sublist (ascii ''banner'') ?text = mentions ''banner'' ?fields"
    "sublist (ascii ''sprite'') ?text = mentions ''sprite'' ?fields"
    "sublist (ascii ''icon'') ?text = mentions ''icon'' ?fields"
    by (rule word_in_joined; simp add: ascii_def)+
  show ?thesis
    unfolding score_image_candidate_def heuristic_score_def Let_def words by simp
qed

subsection \<open>The candidates of a page\<close>

text \<open>
  \<open>handle_starttag\<close> does what the specification says of a tag: it adds the
  reference of the tag, resolved against the base URL, with the score and the
  source of the tag.
\<close>

lemma truthy_or_empty: "truthy v \<longleftrightarrow> or_empty v \<noteq> []"
  by (cases v) (simp_all add: truthy_def or_empty_def py_or_def)

lemma or_empty_py_or:
  "or_empty (py_or a b) = (if or_empty a \<noteq> [] then or_empty a else or_empty b)"
  by (cases a; cases b) (simp_all add: truthy_def or_empty_def py_or_def)

lemma tag_names_differ:
  "ascii ''base'' \<noteq> ascii ''meta''" "ascii ''base'' \<noteq> ascii ''link''" "ascii ''base'' \<noteq> ascii ''img''"
  "ascii ''meta'' \<noteq> ascii ''link''" "ascii ''meta'' \<noteq> ascii ''img''" "ascii ''link'' \<noteq> ascii ''img''"
  by (simp_all add: ascii_def)

lemma icon_in_rel:
  "sublist (ascii ''icon'') rel \<or> sublist (ascii ''apple-touch-icon'') rel \<longleftrightarrow> sublist (ascii ''icon'') rel"
proof -
  have "sublist (ascii ''icon'') (ascii ''apple-touch-icon'')"
    by (simp add: ascii_def sublist_Cons_right prefix_Cons)
  then show ?thesis
    using sublist_order.order_trans by blast
qed

lemma handle_starttag_refines:
  "handle_starttag urljoin tag attrs p =
     (case tag_reference tag attrs of
        None \<Rightarrow> Inr (p\<lparr>base_url := base_after tag attrs (base_url p)\<rparr>)
      | Some (ref, sc, src) \<Rightarrow>
          (case urljoin (base_url p) ref of
             Inl e \<Rightarrow> Inl e
           | Inr full_url \<Rightarrow>
               Inr (p\<lparr>candidates := candidates p
                        @ [\<lparr>cand_url = full_url, cand_score = sc, cand_source = src\<rparr>]\<rparr>)))"
proof -
  consider (base) "lower tag = ascii ''base''" | (meta) "lower tag = ascii ''meta''"
    | (link) "lower tag = ascii ''link''" | (img) "lower tag = ascii ''img''"
    | (other) "lower tag \<noteq> ascii ''base''" "lower tag \<noteq> ascii ''meta''"
        "lower tag \<noteq> ascii ''link''" "lower tag \<noteq> ascii ''img''"
    by blast
  then show ?thesis
  proof cases
    case base
    then show ?thesis
      by (simp add: handle_starttag_def tag_reference_def base_after_def Let_def tag_names_differ
          truthy_or_empty attribute_def)
  next
    case meta
    then show ?thesis
      by (simp add: handle_starttag_def tag_reference_def base_after_def Let_def tag_names_differ
          tag_names_differ [symmetric] or_empty_py_or attribute_def add_candidate_def)
  next
    case link
    then show ?thesis
      by (simp add: handle_starttag_def tag_reference_def base_after_def Let_def tag_names_differ
          tag_names_differ [symmetric] icon_in_rel attribute_def add_candidate_def)
  next
    case img
    then show ?thesis
      by (simp add: handle_starttag_def tag_reference_def base_after_def Let_def tag_names_differ
          tag_names_differ [symmetric] score_is_heuristic attribute_def add_candidate_def)
  next
    case other
    then show ?thesis
      by (simp add: handle_starttag_def tag_reference_def base_after_def Let_def)
  qed
qed

lemma feed_refines:
  "map_sum id candidates (feed urljoin ts p)
   = map_sum id (\<lambda>cs. candidates p @ cs) (page_candidates urljoin (base_url p) ts)"
proof (induction ts arbitrary: p)
  case Nil
  then show ?case by simp
next
  case (Cons t ts)
  obtain tag attrs where t: "t = (tag, attrs)" by (cases t)
  show ?case
  proof (cases "tag_reference tag attrs")
    case None
    then show ?thesis
      using Cons.IH [of "p\<lparr>base_url := base_after tag attrs (base_url p)\<rparr>"]
      by (simp add: t handle_starttag_refines)
  next
    case (Some found)
    obtain ref sc src where found: "found = (ref, sc, src)" by (cases found)
    show ?thesis
    proof (cases "urljoin (base_url p) ref")
      case (Inl e)
      then show ?thesis by (simp add: t handle_starttag_refines Some found)
    next
      case (Inr full_url)
      then show ?thesis
        using Cons.IH [of "p\<lparr>candidates := candidates p
                        @ [\<lparr>cand_url = full_url, cand_score = sc, cand_source = src\<rparr>]\<rparr>"]
        by (simp add: t handle_starttag_refines Some found split: sum.splits)
    qed
  qed
qed


text \<open>The candidates of the sample pages, in document order.\<close>

lemma acme_page_candidates:
  "feed site_urljoin acme_page \<lparr>base_url = acme_site, candidates = []\<rparr>
   = Inr \<lparr>base_url = acme_site, candidates =
       [\<lparr>cand_url = ascii ''https://acme.example/i/Mark.PNG'', cand_score = 12, cand_source = Img\<rparr>,
        \<lparr>cand_url = ascii ''https://acme.example/og.jpg'', cand_score = 8, cand_source = Meta\<rparr>,
        \<lparr>cand_url = ascii ''https://acme.example/favicon.ico'', cand_score = 6, cand_source = Icon\<rparr>]\<rparr>"
  by (simp add: acme_page_def acme_site_def handle_starttag_def attrs_dict_def
      dict_get_def or_empty_def py_or_def truthy_def add_candidate_def Let_def
      score_image_candidate_def endswith_any_def site_urljoin_def lower_def lower_cp_def ascii_def
      sublist_Cons_right suffix_Cons prefix_Cons)

lemma tie_page_candidates:
  "feed site_urljoin tie_page \<lparr>base_url = acme_site, candidates = []\<rparr>
   = Inr \<lparr>base_url = acme_site, candidates =
       [\<lparr>cand_url = ascii ''https://acme.example/favicon.ico'', cand_score = 6, cand_source = Icon\<rparr>,
        \<lparr>cand_url = ascii ''https://acme.example/card.jpg'', cand_score = 8, cand_source = Meta\<rparr>,
        \<lparr>cand_url = ascii ''https://acme.example/logo.png'', cand_score = 8, cand_source = Img\<rparr>]\<rparr>"
  by (simp add: tie_page_def acme_site_def handle_starttag_def attrs_dict_def
      dict_get_def or_empty_def py_or_def truthy_def add_candidate_def Let_def
      score_image_candidate_def endswith_any_def site_urljoin_def lower_def lower_cp_def ascii_def
      sublist_Cons_right suffix_Cons prefix_Cons)

lemma bad_page_raises:
  "feed site_urljoin bad_page \<lparr>base_url = acme_site, candidates = []\<rparr> = Inl ValueError"
  by (simp add: bad_page_def acme_site_def handle_starttag_def attrs_dict_def
      dict_get_def or_empty_def py_or_def truthy_def add_candidate_def Let_def
      score_image_candidate_def endswith_any_def site_urljoin_def lower_def lower_cp_def ascii_def
      sublist_Cons_right suffix_Cons prefix_Cons)

text \<open>
  Claim C5, as stated: the score of a candidate is the heuristic on its URL, its
  alternative text, its class and its id. It fails for the URL: the score is
  computed on the reference as the page writes it, before it is resolved. On the
  site \<open>https://brand-logo.example\<close> the img tag with \<open>src="/a.png"\<close> gives the
  candidate \<open>https://brand-logo.example/a.png\<close> with the score 2, where the
  heuristic on the URL of the candidate is 11.
\<close>

theorem score_is_of_the_written_reference:
  "feed site_urljoin plain_page \<lparr>base_url = brand_logo_site, candidates = []\<rparr>
   = Inr \<lparr>base_url = brand_logo_site, candidates =
       [\<lparr>cand_url = ascii ''https://brand-logo.example/a.png'', cand_score = 2, cand_source = Img\<rparr>]\<rparr>
   \<and> heuristic_score (ascii ''https://brand-logo.example/a.png'') [] [] [] = 11"
proof -
  have "heuristic_score (ascii ''https://brand-logo.example/a.png'') [] [] [] = 11"
    unfolding score_is_heuristic [symmetric]
    by (simp add: score_image_candidate_def Let_def endswith_any_def lower_def lower_cp_def
        ascii_def sublist_Cons_right suffix_Cons prefix_Cons)
  moreover have "feed site_urljoin plain_page \<lparr>base_url = brand_logo_site, candidates = []\<rparr>
   = Inr \<lparr>base_url = brand_logo_site, candidates =
       [\<lparr>cand_url = ascii ''https://brand-logo.example/a.png'', cand_score = 2, cand_source = Img\<rparr>]\<rparr>"
    by (simp add: plain_page_def brand_logo_site_def handle_starttag_def attrs_dict_def
      dict_get_def or_empty_def py_or_def truthy_def add_candidate_def Let_def
      score_image_candidate_def endswith_any_def site_urljoin_def lower_def lower_cp_def ascii_def
      sublist_Cons_right suffix_Cons prefix_Cons)
  ultimately show ?thesis by simp
qed

text \<open>
  Claim C5, amended. The score of an img tag is the additive heuristic on its
  \<open>src\<close> as written in the page and on its own \<open>alt\<close>, \<open>class\<close> and \<open>id\<close>; and the
  candidates of a page are, in document order, exactly those of the specification:
  for each tag its reference resolved against the base URL, scored 8 for a meta
  image, 6 for an icon link and by the heuristic of the tag's own attributes for an
  img tag; when a reference does not resolve, both raise the same error.
\<close>

theorem candidates_scored_from_their_tags:
  "score_image_candidate u alt klass img_id = heuristic_score u alt klass img_id
   \<and> map_sum id candidates (feed urljoin ts \<lparr>base_url = b, candidates = []\<rparr>)
     = page_candidates urljoin b ts"
proof -
  have "map_sum id (\<lambda>cs. [] @ cs) r = r" for r :: "error + candidate list"
    by (cases r) simp_all
  then show ?thesis
    using score_is_heuristic [of u alt klass img_id]
      feed_refines [of urljoin ts "\<lparr>base_url = b, candidates = []\<rparr>"]
    by simp
qed

theorem candidates_scored_from_their_tags_witness:
  "page_candidates site_urljoin acme_site acme_page
   = Inr [\<lparr>cand_url = ascii ''https://acme.example/i/Mark.PNG'', cand_score = 12, cand_source = Img\<rparr>,
          \<lparr>cand_url = ascii ''https://acme.example/og.jpg'', cand_score = 8, cand_source = Meta\<rparr>,
          \<lparr>cand_url = ascii ''https://acme.example/favicon.ico'', cand_score = 6, cand_source = Icon\<rparr>]"
  using candidates_scored_from_their_tags [of "[]" "[]" "[]" "[]" site_urljoin acme_page acme_site]
  by (simp add: acme_page_candidates)

subsection \<open>The order of the candidates\<close>

lemma sorted_reverse_descending:
  "sorted_wrt (\<lambda>a b. key a \<ge> key b) (sorted_reverse key xs)"
proof -
  have "sorted (map key (sort_key key (rev xs)))" by simp
  then have "sorted_wrt (\<lambda>a b. key a \<le> key b) (sort_key key (rev xs))"
    by (simp add: sorted_map)
  then show ?thesis
    unfolding sorted_reverse_def by (simp add: sorted_wrt_rev)
qed

lemma sorted_reverse_stable:
  "filter (\<lambda>x. key x = k) (sorted_reverse key xs) = filter (\<lambda>x. key x = k) xs"
proof -
  have "filter (\<lambda>x. key x = k) (sort_key key (rev xs)) = filter (\<lambda>x. key x = k) (rev xs)"
    by (rule sort_key_stable)
  then show ?thesis
    by (simp add: sorted_reverse_def rev_filter [symmetric])
qed

text \<open>
  Claim C6. The ranking is a function of the final URL and the tags of the page
  alone; when the parser raises, so does the ranking, and otherwise its result is
  sorted by descending score, and the candidates of one score keep the order in
  which the page gave them.
\<close>

theorem ranked_candidates_sorted_stable:
  "(case feed urljoin ts \<lparr>base_url = final_url, candidates = []\<rparr> of
      Inl e \<Rightarrow> ranked_candidates urljoin final_url ts = Inl e
    | Inr p \<Rightarrow>
        (\<exists>cs. ranked_candidates urljoin final_url ts = Inr cs
            \<and> sorted_wrt (\<lambda>a b. cand_score a \<ge> cand_score b) cs
            \<and> (\<forall>k. filter (\<lambda>c. cand_score c = k) cs
                   = filter (\<lambda>c. cand_score c = k) (candidates p))))"
  by (simp add: ranked_candidates_def sorted_reverse_descending sorted_reverse_stable
      split: sum.splits)

text \<open>On the second sample page the meta tag and the img tag tie at 8 and stay in page order.\<close>

theorem ranked_candidates_sorted_stable_witness:
  "\<exists>cs. ranked_candidates site_urljoin acme_site tie_page = Inr cs
     \<and> filter (\<lambda>c. cand_score c = 8) cs
       = [\<lparr>cand_url = ascii ''https://acme.example/card.jpg'', cand_score = 8, cand_source = Meta\<rparr>,
          \<lparr>cand_url = ascii ''https://acme.example/logo.png'', cand_score = 8, cand_source = Img\<rparr>]"
proof -
  let ?page = "[\<lparr>cand_url = ascii ''https://acme.example/favicon.ico'', cand_score = 6, cand_source = Icon\<rparr>,
        \<lparr>cand_url = ascii ''https://acme.example/card.jpg'', cand_score = 8, cand_source = Meta\<rparr>,
        \<lparr>cand_url = ascii ''https://acme.example/logo.png'', cand_score = 8, cand_source = Img\<rparr>]"
  from ranked_candidates_sorted_stable
    [where urljoin = site_urljoin and ts = tie_page and final_url = acme_site]
  obtain cs where ranked: "ranked_candidates site_urljoin acme_site tie_page = Inr cs"
    and stable: "\<forall>k. filter (\<lambda>c. cand_score c = k) cs = filter (\<lambda>c. cand_score c = k) ?page"
    unfolding tie_page_candidates by auto
  from stable have "filter (\<lambda>c. cand_score c = 8) cs = filter (\<lambda>c. cand_score c = 8) ?page"
    by blast
  then show ?thesis using ranked by simp
qed

section \<open>Properties of the thumbnail\<close>

text \<open>
  Claim C8, as stated: an input with an alpha channel is flattened onto white. It
  fails for an image of mode \<open>PA\<close>: the test of the source names the modes \<open>RGBA\<close>
  and \<open>LA\<close> only, so the image is converted with \<open>convert("RGB")\<close>.
\<close>

theorem palette_is_converted_not_flattened:
  "has_alpha_channel palette_logo
   \<and> make_square palette_logo 312
       = Inr \<lparr>img_mode = ascii ''RGB'', img_size = (312, 312),
              img_pixels = Resized_lanczos (312, 312)
                (Cropped (3, 0, 12, 9) (Converted (ascii ''RGB'') (Decoded [73, 73, 42, 0])))\<rparr>
   \<and> flattened palette_logo
       = Pasted (Filled (255, 255, 255)) (Decoded [73, 73, 42, 0]) (Last_band (Decoded [73, 73, 42, 0]))"
  by (simp add: has_alpha_channel_def palette_logo_def make_square_def flattened_def Let_def
      image_new_def paste_def last_band_def convert_def crop_def resize_def ascii_def)

text \<open>
  Claim C8, amended. For an image of positive width and height and a positive size
  \<open>n\<close>, \<open>make_square\<close> returns an image of \<open>n\<close> by \<open>n\<close> pixels in mode \<open>RGB\<close>. Its
  pixels are those of the input, flattened onto white when it has an alpha channel
  and converted to \<open>RGB\<close> otherwise, except that an input of mode \<open>PA\<close>, \<open>RGBa\<close> or
  \<open>La\<close> is converted; then cropped to the centred square whose side is the smaller
  dimension; then resampled. The square lies inside the image, and the margins it
  leaves on two opposite sides differ by one pixel at most.
\<close>

theorem make_square_exact:
  assumes "img_size img = (w, h)" and "0 < w" and "0 < h" and "0 < n"
  shows "(let m = min w h; l = (w - m) div 2; t = (h - m) div 2
          in make_square img n
               = Inr \<lparr>img_mode = ascii ''RGB'', img_size = (n, n),
                      img_pixels = Resized_lanczos (n, n)
                        (Cropped (l, t, l + m, t + m)
                           (if img_mode img \<in> {ascii ''PA'', ascii ''RGBa'', ascii ''La''}
                            then Converted (ascii ''RGB'') (img_pixels img)
                            else flattened img))\<rparr>
             \<and> 0 \<le> l \<and> l + m \<le> w \<and> 0 \<le> t \<and> t + m \<le> h
             \<and> (w - (l + m)) - l \<in> {0, 1} \<and> (h - (t + m)) - t \<in> {0, 1})"
proof -
  have geometry: "0 \<le> (w - min w h) div 2" "(w - min w h) div 2 + min w h \<le> w"
    "0 \<le> (h - min w h) div 2" "(h - min w h) div 2 + min w h \<le> h"
    "(w - ((w - min w h) div 2 + min w h)) - (w - min w h) div 2 \<in> {0, 1}"
    "(h - ((h - min w h) div 2 + min w h)) - (h - min w h) div 2 \<in> {0, 1}"
    using assms(2,3) by (auto simp: min_def)
  have modes: "ascii ''PA'' \<noteq> ascii ''RGB''" "ascii ''RGBa'' \<noteq> ascii ''RGB''"
    "ascii ''La'' \<noteq> ascii ''RGB''" "ascii ''PA'' \<noteq> ascii ''RGBA''" "ascii ''PA'' \<noteq> ascii ''LA''"
    "ascii ''RGBa'' \<noteq> ascii ''RGBA''" "ascii ''RGBa'' \<noteq> ascii ''LA''"
    "ascii ''La'' \<noteq> ascii ''RGBA''" "ascii ''La'' \<noteq> ascii ''LA''"
    by (simp_all add: ascii_def)
  have run: "make_square img n
      = Inr \<lparr>img_mode = ascii ''RGB'', img_size = (n, n),
             img_pixels = Resized_lanczos (n, n)
               (Cropped ((w - min w h) div 2, (h - min w h) div 2,
                         (w - min w h) div 2 + min w h, (h - min w h) div 2 + min w h)
                  (if img_mode img \<in> {ascii ''PA'', ascii ''RGBa'', ascii ''La''}
                   then Converted (ascii ''RGB'') (img_pixels img)
                   else flattened img))\<rparr>"
    using assms modes
    by (auto simp: make_square_def flattened_def has_alpha_channel_def Let_def image_new_def
        paste_def last_band_def convert_def crop_def resize_def)
  show ?thesis
    unfolding Let_def using run geometry by blast
qed

text \<open>The sample of sixteen by nine pixels: the crop is the square from column 3 to column 12.\<close>

theorem make_square_exact_witness:
  "img_size wide_logo = (16, 9)
   \<and> make_square wide_logo 312
       = Inr \<lparr>img_mode = ascii ''RGB'', img_size = (312, 312),
              img_pixels = Resized_lanczos (312, 312)
                (Cropped (3, 0, 12, 9)
                   (Pasted (Filled (255, 255, 255)) (Decoded [137, 80, 78, 71])
                      (Last_band (Decoded [137, 80, 78, 71]))))\<rparr>"
proof -
  have size: "img_size wide_logo = (16, 9)" by (simp add: wide_logo_def)
  have flat: "flattened wide_logo
      = Pasted (Filled (255, 255, 255)) (Decoded [137, 80, 78, 71])
          (Last_band (Decoded [137, 80, 78, 71]))"
    "img_mode wide_logo \<notin> {ascii ''PA'', ascii ''RGBa'', ascii ''La''}"
    by (simp_all add: flattened_def has_alpha_channel_def wide_logo_def ascii_def)
  from make_square_exact [OF size, of 312]
  show ?thesis using size flat by (simp add: Let_def)
qed

section \<open>Properties of the image sources\<close>

subsection \<open>The scan of the official site\<close>

lemma sent_requests: "w_requests (sent r w) = w_requests w @ [r]"
  by (simp add: sent_def)



lemma find_image_official_unresolved:
  assumes "u \<noteq> []"
    and "page_reply net u = Inr resp" and "\<not> raises_for_status (page_status resp)"
    and "ranked_candidates (lib_urljoin lib) (page_url resp) (page_tags resp) = Inl e"
  shows "find_image_from_official_site lib net (Some u) w = ((None, None), sent (GetPage u) w)"
  using assms
  by (simp add: find_image_from_official_site_def truthy_def or_empty_def py_or_def
      fetch_html_candidates_def)




lemma bad_page_ranked:
  "ranked_candidates (lib_urljoin ascii_library) acme_site bad_page = Inl ValueError"
proof -
  have lib: "lib_urljoin ascii_library = site_urljoin" by (simp add: ascii_library_def)
  show ?thesis
    unfolding ranked_candidates_def lib bad_page_raises by simp
qed

lemma site_with_replies:
  "page_reply (site_with ts) acme_site = Inr \<lparr>page_status = 200, page_url = acme_site, page_tags = ts\<rparr>"
  "downloaded_image (site_with ts) u = Inr (decoded_logo [137, 80, 78, 71])"
  by (simp_all add: site_with_def downloaded_image_def small_png_def raises_for_status_def
      or_empty_def py_or_def truthy_def lower_def lower_cp_def ascii_def Let_def
      sublist_Cons_right prefix_Cons)

lemma acme_info_fields:
  "dict_get (map_of acme_info) (ascii ''official_url'') = Some acme_site"
  "dict_get (map_of acme_info) (ascii ''logo_filename'') = Some (ascii ''Acme.png'')"
  "acme_site \<noteq> []"
  by (simp_all add: acme_info_def dict_get_def acme_site_def ascii_def)



text \<open>
  On the page whose img tag has a reference that \<open>urljoin\<close> rejects, the parser
  raises, the scan yields nothing although the page has a meta image, and the logo
  file is requested.
\<close>

lemma unresolved_reference_ends_the_scan:
  "acquire_image ascii_library (site_with bad_page) acme_options Map.empty
     (ascii ''Acme Comics'') acme_info acme_world
   = (Inr (decoded_logo [137, 80, 78, 71],
           Some (ascii ''https://commons.wikimedia.org/wiki/Special:FilePath/Acme.png'')),
      acme_world\<lparr>w_requests :=
        [GetPage acme_site,
         GetImage (ascii ''https://commons.wikimedia.org/wiki/Special:FilePath/Acme.png'')]\<rparr>)"
proof -
  have ok: "\<not> raises_for_status (page_status \<lparr>page_status = 200, page_url = acme_site, page_tags = bad_page\<rparr>)"
    by (simp add: raises_for_status_def)
  have ranked: "ranked_candidates (lib_urljoin ascii_library)
        (page_url \<lparr>page_status = 200, page_url = acme_site, page_tags = bad_page\<rparr>)
        (page_tags \<lparr>page_status = 200, page_url = acme_site, page_tags = bad_page\<rparr>)
      = Inl ValueError"
    by (simp add: bad_page_ranked)
  have scan: "find_image_from_official_site ascii_library (site_with bad_page) (Some acme_site) w
      = ((None, None), sent (GetPage acme_site) w)" for w
    by (rule find_image_official_unresolved [OF acme_info_fields(3) site_with_replies(1) ok ranked])
  have wikimedia: "find_image_from_wikimedia ascii_library (site_with bad_page)
        (Some (ascii ''Acme.png'')) w
      = (Inr (decoded_logo [137, 80, 78, 71],
              Some (ascii ''https://commons.wikimedia.org/wiki/Special:FilePath/Acme.png'')),
         sent (GetImage (ascii ''https://commons.wikimedia.org/wiki/Special:FilePath/Acme.png'')) w)"
    for w
    by (simp add: find_image_from_wikimedia_def wikimedia_file_url_def ascii_library_def
        download_image_def site_with_replies decoded_logo_def truthy_def or_empty_def py_or_def
        ascii_def)
  show ?thesis
    unfolding acquire_image_def acme_info_fields scan wikimedia
    by (simp add: acme_options_def and_then_def sent_def acme_world_def)
qed



section \<open>Properties of the cache in the loop of main\<close>

text \<open>
  No source of an image and no step after the lookup of the record makes a metadata
  request.
\<close>

lemma and_then_metadata:
  assumes "metadata_requests (snd step) = m"
    and "\<And>x w'. metadata_requests w' = m \<Longrightarrow> metadata_requests (snd (rest x w')) = m"
  shows "metadata_requests (snd (and_then step rest)) = m"
  using assms by (cases step) (auto simp: and_then_def split: sum.splits)

lemma sent_metadata:
  "\<not> is_metadata r \<Longrightarrow> metadata_requests (sent r w) = metadata_requests w"
  by (simp add: metadata_requests_def sent_def)

lemma effects_metadata:
  "metadata_requests (save_cache w) = metadata_requests w"
  "metadata_requests (write_report_row row w) = metadata_requests w"
  "metadata_requests (update_folder_info path d s w) = metadata_requests w"
  "metadata_requests (time_sleep t w) = metadata_requests w"
  "metadata_requests (w\<lparr>w_cache := c\<rparr>) = metadata_requests w"
  "metadata_requests (w\<lparr>w_images := i\<rparr>) = metadata_requests w"
  by (simp_all add: metadata_requests_def save_cache_def write_report_row_def
      update_folder_info_def time_sleep_def)

lemma download_image_metadata:
  "metadata_requests (snd (download_image net u w)) = metadata_requests w"
  by (simp add: download_image_def sent_metadata)

lemma try_candidates_metadata:
  "metadata_requests (snd (try_candidates net cands w)) = metadata_requests w"
proof (induction cands arbitrary: w)
  case Nil
  then show ?case by simp
next
  case (Cons c cands)
  show ?case
    using Cons.IH [of "sent (GetImage (cand_url c)) w"]
    by (simp add: download_image_def sent_metadata split: sum.splits option.splits)
qed

lemma find_image_from_official_site_metadata:
  "metadata_requests (snd (find_image_from_official_site lib net u w)) = metadata_requests w"
  by (simp add: find_image_from_official_site_def fetch_html_candidates_def
      try_candidates_metadata sent_metadata split: sum.splits)

lemma find_image_from_wikimedia_metadata:
  "metadata_requests (snd (find_image_from_wikimedia lib net filename w)) = metadata_requests w"
  by (simp add: find_image_from_wikimedia_def download_image_def sent_metadata
      split: sum.splits option.splits)

lemma fetch_bdbase_logo_by_slug_metadata:
  "metadata_requests (snd (fetch_bdbase_logo_by_slug net slug w)) = metadata_requests w"
  by (simp add: fetch_bdbase_logo_by_slug_def sent_metadata split: sum.splits)

lemma find_image_from_bdbase_metadata:
  "metadata_requests (snd (find_image_from_bdbase lib net name bdbase_map w)) = metadata_requests w"
  unfolding find_image_from_bdbase_def Let_def
  by (rule and_then_metadata)
     (auto simp: fetch_bdbase_logo_by_slug_metadata download_image_def sent_metadata
       split: sum.splits option.splits)

lemma fetch_bdbase_details_metadata:
  "metadata_requests (snd (fetch_bdbase_details lib net name w)) = metadata_requests w"
  by (simp add: fetch_bdbase_details_def sent_metadata Let_def split: sum.splits)

lemma supplement_metadata:
  "metadata_requests (snd (supplement lib net opts name info w)) = metadata_requests w"
  unfolding supplement_def
  by (auto intro!: and_then_metadata
      simp: fetch_bdbase_details_metadata effects_metadata Let_def split: option.splits)

lemma snd_case_prod_keep: "snd (case p of (a, b) \<Rightarrow> (f a, b)) = snd p"
  by (cases p) simp

lemma acquire_image_metadata:
  "metadata_requests (snd (acquire_image lib net opts bdbase_map name info w)) = metadata_requests w"
proof (cases "opt_prefer opts = Official")
  case True
  obtain found w1 where scan:
    "find_image_from_official_site lib net (dict_get (map_of info) (ascii ''official_url'')) w = (found, w1)"
    by (cases "find_image_from_official_site lib net (dict_get (map_of info) (ascii ''official_url'')) w")
  have w1: "metadata_requests w1 = metadata_requests w"
    using find_image_from_official_site_metadata
      [of lib net "dict_get (map_of info) (ascii ''official_url'')" w] by (simp add: scan)
  have "metadata_requests (snd (and_then
          (if fst found = None \<and> opt_use_bdbase opts
           then find_image_from_bdbase lib net name bdbase_map w1 else (Inr found, w1))
          (\<lambda>found w.
             if fst found = None
             then find_image_from_wikimedia lib net
                    (dict_get (map_of info) (ascii ''logo_filename'')) w
             else (Inr found, w)))) = metadata_requests w"
  proof (rule and_then_metadata)
    show "metadata_requests (snd (if fst found = None \<and> opt_use_bdbase opts
           then find_image_from_bdbase lib net name bdbase_map w1 else (Inr found, w1)))
          = metadata_requests w"
      by (simp add: find_image_from_bdbase_metadata w1)
  next
    fix x w'
    assume "metadata_requests w' = metadata_requests w"
    then show "metadata_requests (snd (if fst x = None
             then find_image_from_wikimedia lib net
                    (dict_get (map_of info) (ascii ''logo_filename'')) w'
             else (Inr x, w'))) = metadata_requests w"
      by (simp add: find_image_from_wikimedia_metadata)
  qed
  then show ?thesis
    by (simp add: acquire_image_def True scan)
next
  case False
  have "metadata_requests (snd (and_then
          (find_image_from_wikimedia lib net (dict_get (map_of info) (ascii ''logo_filename'')) w)
          (\<lambda>found w.
             and_then (if fst found = None \<and> opt_use_bdbase opts
                       then find_image_from_bdbase lib net name bdbase_map w
                       else (Inr found, w)) (\<lambda>found w.
               if fst found = None
               then (case find_image_from_official_site lib net
                            (dict_get (map_of info) (ascii ''official_url'')) w of
                       (found, w) \<Rightarrow> (Inr found, w))
               else (Inr found, w))))) = metadata_requests w"
  proof (rule and_then_metadata [OF find_image_from_wikimedia_metadata])
    fix found w1
    assume w1: "metadata_requests w1 = metadata_requests w"
    show "metadata_requests (snd (and_then (if fst found = None \<and> opt_use_bdbase opts
                       then find_image_from_bdbase lib net name bdbase_map w1
                       else (Inr found, w1)) (\<lambda>found w.
               if fst found = None
               then (case find_image_from_official_site lib net
                            (dict_get (map_of info) (ascii ''official_url'')) w of
                       (found, w) \<Rightarrow> (Inr found, w))
               else (Inr found, w)))) = metadata_requests w"
    proof (rule and_then_metadata)
      show "metadata_requests (snd (if fst found = None \<and> opt_use_bdbase opts
             then find_image_from_bdbase lib net name bdbase_map w1 else (Inr found, w1)))
            = metadata_requests w"
        by (simp add: find_image_from_bdbase_metadata w1)
    next
      fix x w'
      assume "metadata_requests w' = metadata_requests w"
      then show "metadata_requests (snd (if fst x = None
               then (case find_image_from_official_site lib net
                            (dict_get (map_of info) (ascii ''official_url'')) w' of
                       (found, w) \<Rightarrow> (Inr found, w))
               else (Inr x, w'))) = metadata_requests w"
        by (simp add: snd_case_prod_keep find_image_from_official_site_metadata)
    qed
  qed
  then show ?thesis
    by (simp add: acquire_image_def False)
qed

lemma cached_info_hit:
  "w_cache w name = Some info \<Longrightarrow> info \<noteq> [] \<Longrightarrow> cached_info net name w = (Inr info, w)"
  by (simp add: cached_info_def Let_def)

lemma and_then_Inr: "and_then (Inr x, w) rest = rest x w"
  by (simp add: and_then_def)

lemma supplement_result:
  "supplement lib net opts name info w = (r, w1) \<Longrightarrow> metadata_requests w1 = metadata_requests w"
  using supplement_metadata [of lib net opts name info w] by simp

lemma acquire_image_result:
  "acquire_image lib net opts bdbase_map name info w = (r, w1)
   \<Longrightarrow> metadata_requests w1 = metadata_requests w"
  using acquire_image_metadata [of lib net opts bdbase_map name info w] by simp

lemma process_publisher_metadata:
  assumes "w_cache w name = Some info" and "info \<noteq> []"
  shows "metadata_requests (snd (process_publisher lib net opts bdbase_map name w))
         = metadata_requests w"
  unfolding process_publisher_def cached_info_hit [OF assms] and_then_Inr
  by (auto simp: and_then_def Let_def effects_metadata
      dest!: supplement_result acquire_image_result
      split: sum.splits prod.splits option.splits)

text \<open>The requests of a pass over an entity whose record is in the cache.\<close>

lemma effects_requests:
  "w_requests (save_cache w) = w_requests w"
  "w_requests (write_report_row row w) = w_requests w"
  "w_requests (update_folder_info path d s w) = w_requests w"
  "w_requests (time_sleep t w) = w_requests w"
  by (simp_all add: save_cache_def write_report_row_def update_folder_info_def time_sleep_def)

lemma process_publisher_requests:
  assumes "w_cache w name = Some info" and "info \<noteq> []"
  shows "w_requests (snd (process_publisher lib net opts bdbase_map name w))
         = (if w_images w (folder_jpg lib opts name) \<noteq> None
            then (if opt_update_folder_info opts
                  then w_requests (snd (supplement lib net opts name info w))
                  else w_requests w)
            else w_requests (snd (and_then (supplement lib net opts name info w)
                   (\<lambda>(info, description, website) w.
                      acquire_image lib net opts bdbase_map name info w))))"
  unfolding process_publisher_def cached_info_hit [OF assms] and_then_Inr folder_jpg_def
  by (auto simp: and_then_def Let_def effects_requests
      split: sum.splits prod.splits option.splits)


text \<open>Requests are only added, and the scan of the official site starts with its page.\<close>

lemma and_then_grows:
  assumes "prefix A (w_requests (snd step))"
    and "\<And>x w'. prefix A (w_requests w') \<Longrightarrow> prefix A (w_requests (snd (rest x w')))"
  shows "prefix A (w_requests (snd (and_then step rest)))"
  using assms by (cases step) (auto simp: and_then_def split: sum.splits)

lemma sent_grows: "prefix A (w_requests w) \<Longrightarrow> prefix A (w_requests (sent r w))"
  by (simp add: sent_def prefix_prefix)

lemma try_candidates_grows:
  "prefix A (w_requests w) \<Longrightarrow> prefix A (w_requests (snd (try_candidates net cands w)))"
proof (induction cands arbitrary: w)
  case Nil
  then show ?case by simp
next
  case (Cons c cands)
  show ?case
    using Cons.IH [OF sent_grows [OF Cons.prems, of "GetImage (cand_url c)"]]
      sent_grows [OF Cons.prems, of "GetImage (cand_url c)"]
    by (simp add: download_image_def split: sum.splits option.splits)
qed

lemma find_image_from_official_site_grows:
  "prefix A (w_requests w)
   \<Longrightarrow> prefix A (w_requests (snd (find_image_from_official_site lib net u w)))"
  by (simp add: find_image_from_official_site_def fetch_html_candidates_def
      try_candidates_grows sent_grows split: sum.splits)

lemma find_image_from_official_site_asks:
  "u \<noteq> [] \<Longrightarrow>
   prefix (w_requests w @ [GetPage u])
     (w_requests (snd (find_image_from_official_site lib net (Some u) w)))"
proof -
  have start: "prefix (w_requests w @ [GetPage u]) (w_requests (sent (GetPage u) w))"
    by (simp add: sent_def)
  assume "u \<noteq> []"
  then show ?thesis
    using start try_candidates_grows [OF start]
    by (simp add: find_image_from_official_site_def fetch_html_candidates_def truthy_def
        or_empty_def py_or_def split: sum.splits)
qed

lemma find_image_from_wikimedia_grows:
  "prefix A (w_requests w)
   \<Longrightarrow> prefix A (w_requests (snd (find_image_from_wikimedia lib net filename w)))"
  by (simp add: find_image_from_wikimedia_def download_image_def sent_grows
      split: sum.splits option.splits)

lemma fetch_bdbase_logo_by_slug_grows:
  "prefix A (w_requests w)
   \<Longrightarrow> prefix A (w_requests (snd (fetch_bdbase_logo_by_slug net slug w)))"
  by (simp add: fetch_bdbase_logo_by_slug_def sent_grows split: sum.splits)

lemma find_image_from_bdbase_grows:
  "prefix A (w_requests w)
   \<Longrightarrow> prefix A (w_requests (snd (find_image_from_bdbase lib net name bdbase_map w)))"
  unfolding find_image_from_bdbase_def Let_def
  by (rule and_then_grows)
     (auto simp: fetch_bdbase_logo_by_slug_grows download_image_def sent_grows
       split: sum.splits option.splits)

lemma acquire_image_rest_grows:
  assumes "prefix A (w_requests w1)"
  shows "prefix A (w_requests (snd (and_then
          (if fst found = None \<and> opt_use_bdbase opts
           then find_image_from_bdbase lib net name bdbase_map w1 else (Inr found, w1))
          (\<lambda>found w.
             if fst found = None
             then find_image_from_wikimedia lib net filename w
             else (Inr found, w)))))"
proof (rule and_then_grows)
  show "prefix A (w_requests (snd (if fst found = None \<and> opt_use_bdbase opts
           then find_image_from_bdbase lib net name bdbase_map w1 else (Inr found, w1))))"
    by (simp add: find_image_from_bdbase_grows assms)
next
  fix x :: "image option \<times> str option" and w' :: world
  assume "prefix A (w_requests w')"
  then show "prefix A (w_requests (snd (if fst x = None
             then find_image_from_wikimedia lib net filename w'
             else (Inr x, w'))))"
    by (simp add: find_image_from_wikimedia_grows)
qed

lemma acquire_image_asks:
  assumes "opt_prefer opts = Official"
    and "dict_get (map_of info) (ascii ''official_url'') = Some u" and "u \<noteq> []"
  shows "prefix (w_requests w @ [GetPage u])
           (w_requests (snd (acquire_image lib net opts bdbase_map name info w)))"
proof -
  obtain found w1 where scan:
    "find_image_from_official_site lib net (Some u) w = (found, w1)"
    by (cases "find_image_from_official_site lib net (Some u) w")
  have w1: "prefix (w_requests w @ [GetPage u]) (w_requests w1)"
    using find_image_from_official_site_asks [OF assms(3), of w lib net] by (simp add: scan)
  have run: "acquire_image lib net opts bdbase_map name info w
      = and_then
          (if fst found = None \<and> opt_use_bdbase opts
           then find_image_from_bdbase lib net name bdbase_map w1 else (Inr found, w1))
          (\<lambda>found w.
             if fst found = None
             then find_image_from_wikimedia lib net
                    (dict_get (map_of info) (ascii ''logo_filename'')) w
             else (Inr found, w))"
    unfolding acquire_image_def assms(2) scan using assms(1) by simp
  show ?thesis
    unfolding run by (rule acquire_image_rest_grows [OF w1])
qed

lemma supplement_quiet:
  "\<not> details_wanted opts info \<Longrightarrow>
   \<exists>description website. supplement lib net opts name info w = (Inr (info, description, website), w)"
  by (auto simp: supplement_def details_wanted_def and_then_def)

lemma supplement_asks:
  "details_wanted opts info \<Longrightarrow>
   w_requests (snd (supplement lib net opts name info w))
   = w_requests w @ [BdbaseDetails (slugify_bdbase lib name)]"
  by (auto simp: supplement_def details_wanted_def and_then_def fetch_bdbase_details_def Let_def
      sent_def effects_requests save_cache_def split: sum.splits option.splits prod.splits)


lemma acquire_image_grows:
  assumes "prefix A (w_requests w)"
  shows "prefix A (w_requests (snd (acquire_image lib net opts bdbase_map name info w)))"
proof (cases "opt_prefer opts = Official")
  case True
  obtain found w1 where scan:
    "find_image_from_official_site lib net (dict_get (map_of info) (ascii ''official_url'')) w = (found, w1)"
    by (cases "find_image_from_official_site lib net (dict_get (map_of info) (ascii ''official_url'')) w")
  have w1: "prefix A (w_requests w1)"
    using find_image_from_official_site_grows
      [OF assms, where lib = lib and net = net
        and u = "dict_get (map_of info) (ascii ''official_url'')"]
    by (simp add: scan)
  have run: "acquire_image lib net opts bdbase_map name info w
      = and_then
          (if fst found = None \<and> opt_use_bdbase opts
           then find_image_from_bdbase lib net name bdbase_map w1 else (Inr found, w1))
          (\<lambda>found w.
             if fst found = None
             then find_image_from_wikimedia lib net
                    (dict_get (map_of info) (ascii ''logo_filename'')) w
             else (Inr found, w))"
    unfolding acquire_image_def scan using True by simp
  show ?thesis
    unfolding run by (rule acquire_image_rest_grows [OF w1])
next
  case False
  have "prefix A (w_requests (snd (and_then
          (find_image_from_wikimedia lib net (dict_get (map_of info) (ascii ''logo_filename'')) w)
          (\<lambda>found w.
             and_then (if fst found = None \<and> opt_use_bdbase opts
                       then find_image_from_bdbase lib net name bdbase_map w
                       else (Inr found, w)) (\<lambda>found w.
               if fst found = None
               then (case find_image_from_official_site lib net
                            (dict_get (map_of info) (ascii ''official_url'')) w of
                       (found, w) \<Rightarrow> (Inr found, w))
               else (Inr found, w))))))"
  proof (rule and_then_grows [OF find_image_from_wikimedia_grows [OF assms]])
    fix found :: "image option \<times> str option" and w1 :: world
    assume w1: "prefix A (w_requests w1)"
    show "prefix A (w_requests (snd (and_then (if fst found = None \<and> opt_use_bdbase opts
                       then find_image_from_bdbase lib net name bdbase_map w1
                       else (Inr found, w1)) (\<lambda>found w.
               if fst found = None
               then (case find_image_from_official_site lib net
                            (dict_get (map_of info) (ascii ''official_url'')) w of
                       (found, w) \<Rightarrow> (Inr found, w))
               else (Inr found, w)))))"
    proof (rule and_then_grows)
      show "prefix A (w_requests (snd (if fst found = None \<and> opt_use_bdbase opts
             then find_image_from_bdbase lib net name bdbase_map w1 else (Inr found, w1))))"
        by (simp add: find_image_from_bdbase_grows w1)
    next
      fix x :: "image option \<times> str option" and w' :: world
      assume "prefix A (w_requests w')"
      then show "prefix A (w_requests (snd (if fst x = None
               then (case find_image_from_official_site lib net
                            (dict_get (map_of info) (ascii ''official_url'')) w' of
                       (found, w) \<Rightarrow> (Inr found, w))
               else (Inr x, w'))))"
        by (simp add: snd_case_prod_keep find_image_from_official_site_grows)
    qed
  qed
  then show ?thesis
    by (simp add: acquire_image_def False)
qed

lemma acme_world_cache:
  "w_cache acme_world (ascii ''Acme Comics'') = Some acme_info" "acme_info \<noteq> []"
  "w_requests acme_world = []" "w_images acme_world path = None"
  "w_cache acme_done_world (ascii ''Acme Comics'') = Some acme_info"
  "w_requests acme_done_world = []"
  by (simp_all add: acme_world_def acme_done_world_def acme_info_def)

lemma acme_folder_jpg:
  "folder_jpg ascii_library acme_options (ascii ''Acme Comics'') = ascii ''out/Acme Comics/folder.jpg''"
  "folder_jpg ascii_library details_options (ascii ''Acme Comics'') = ascii ''out/Acme Comics/folder.jpg''"
  by (simp_all add: folder_jpg_def ascii_library_def acme_options_def details_options_def
      sanitize_folder_name_def strip_def is_space_def ascii_def)

lemma acme_done_image:
  "w_images acme_done_world (ascii ''out/Acme Comics/folder.jpg'') \<noteq> None"
  by (simp add: acme_done_world_def)

lemma acme_details:
  "\<not> details_wanted acme_options acme_info" "details_wanted details_options acme_info"
  "opt_update_folder_info details_options"
  by (simp_all add: details_wanted_def acme_options_def details_options_def acme_info_def ascii_def)

lemma acme_slug: "slugify_bdbase ascii_library (ascii ''Acme Comics'') = ascii ''acme-comics''"
  by (simp add: slugify_bdbase_def Let_def ascii_library_def lower_def lower_cp_def replace_def
      is_apostrophe_def is_az09_def strip_def ascii_def)

lemma acquire_image_web_down:
  "acquire_image ascii_library web_down acme_options Map.empty (ascii ''Acme Comics'') acme_info w
   = (Inr (None, None),
      w\<lparr>w_requests := w_requests w @
          [GetPage acme_site,
           GetImage (ascii ''https://commons.wikimedia.org/wiki/Special:FilePath/Acme.png'')]\<rparr>)"
proof -
  have official: "find_image_from_official_site ascii_library web_down (Some acme_site) w
      = ((None, None), sent (GetPage acme_site) w)" for w
    using acme_info_fields(3)
    by (simp add: find_image_from_official_site_def fetch_html_candidates_def web_down_def
        truthy_def or_empty_def py_or_def)
  have wikimedia: "find_image_from_wikimedia ascii_library web_down (Some (ascii ''Acme.png'')) w
      = (Inr (None, None),
         sent (GetImage (ascii ''https://commons.wikimedia.org/wiki/Special:FilePath/Acme.png'')) w)"
    for w
    by (simp add: find_image_from_wikimedia_def wikimedia_file_url_def ascii_library_def
        download_image_def downloaded_image_def web_down_def truthy_def or_empty_def
        py_or_def ascii_def)
  show ?thesis
    unfolding acquire_image_def acme_info_fields official wikimedia
    by (simp add: acme_options_def and_then_def sent_def)
qed

text \<open>
  Claim C2, as stated: for an entity whose name is a key of the cache, a run issues
  no network request for it. It fails for the sample publisher, whose record is in
  the cache: when its \<open>folder.jpg\<close> does not exist, the official site and the logo
  file are requested again; when it exists and the run asks for the details of the
  directory site, which the record does not have, the page of the directory site is
  requested. Both are shown on a network that is down.
\<close>

theorem cached_publisher_still_requests:
  "w_cache acme_world (ascii ''Acme Comics'') = Some acme_info
   \<and> w_requests acme_world = []
   \<and> w_requests (snd (process_publisher ascii_library web_down acme_options Map.empty
                        (ascii ''Acme Comics'') acme_world))
     = [GetPage acme_site,
        GetImage (ascii ''https://commons.wikimedia.org/wiki/Special:FilePath/Acme.png'')]
   \<and> w_cache acme_done_world (ascii ''Acme Comics'') = Some acme_info
   \<and> w_requests acme_done_world = []
   \<and> w_requests (snd (process_publisher ascii_library web_down details_options Map.empty
                        (ascii ''Acme Comics'') acme_done_world))
     = [BdbaseDetails (ascii ''acme-comics'')]"
proof -
  have supplement: "supplement ascii_library web_down acme_options (ascii ''Acme Comics'') acme_info w
      = (Inr (acme_info, None, None), w)" for w
    by (simp add: supplement_def acme_options_def)
  have first: "w_requests (snd (process_publisher ascii_library web_down acme_options Map.empty
                        (ascii ''Acme Comics'') acme_world))
     = [GetPage acme_site,
        GetImage (ascii ''https://commons.wikimedia.org/wiki/Special:FilePath/Acme.png'')]"
    unfolding process_publisher_requests [OF acme_world_cache(1,2)]
    by (simp add: acme_world_cache supplement and_then_Inr acquire_image_web_down)
  have second: "w_requests (snd (process_publisher ascii_library web_down details_options Map.empty
                        (ascii ''Acme Comics'') acme_done_world))
     = [BdbaseDetails (ascii ''acme-comics'')]"
    unfolding process_publisher_requests [OF acme_world_cache(5,2)]
    by (simp add: acme_folder_jpg acme_done_image acme_details supplement_asks acme_slug
        acme_world_cache)
  show ?thesis
    using first second by (simp add: acme_world_cache)
qed

text \<open>
  An empty record in the cache counts as no record: the search is made again.
\<close>

lemma empty_record_is_resolved_again:
  "w_requests (snd (cached_info web_down (ascii ''Acme Comics'')
                      (acme_world\<lparr>w_cache := [ascii ''Acme Comics'' \<mapsto> []]\<rparr>)))
   = [WikiSearch (ascii ''Acme Comics'') (ascii ''fr'')]"
  by (simp add: cached_info_def Let_def resolve_publisher_info_def wiki_search_def and_then_def
      web_down_def sent_def acme_world_def)

text \<open>
  Claim C2, amended. For an entity whose name is a key of the cache with a
  non-empty record, the lookup of lines 569 to 573 makes no request and yields that
  very record, leaving the state as it is, and the pass over the entity makes no
  metadata request. When its \<open>folder.jpg\<close> exists and the details of the directory
  site are not wanted (lines 577 and 578), the pass makes no request at all. When
  its \<open>folder.jpg\<close> does not exist and the details are not wanted, the requests of
  the pass are those of the image sources on the cached record, which start with
  the page of the official site when \<open>prefer = official\<close> and the record has an
  official URL. When the details are wanted, the pass starts with the request of
  the page of the directory site.
\<close>

theorem cached_record_requests:
  assumes "w_cache w name = Some info" and "info \<noteq> []"
  shows "cached_info net name w = (Inr info, w)
   \<and> metadata_requests (snd (process_publisher lib net opts bdbase_map name w))
     = metadata_requests w
   \<and> (w_images w (folder_jpg lib opts name) \<noteq> None \<and> \<not> details_wanted opts info
      \<longrightarrow> w_requests (snd (process_publisher lib net opts bdbase_map name w)) = w_requests w)
   \<and> (w_images w (folder_jpg lib opts name) = None \<and> \<not> details_wanted opts info
      \<longrightarrow> w_requests (snd (process_publisher lib net opts bdbase_map name w))
          = w_requests (snd (acquire_image lib net opts bdbase_map name info w))
        \<and> (opt_prefer opts = Official
           \<and> dict_get (map_of info) (ascii ''official_url'') = Some u \<and> u \<noteq> []
           \<longrightarrow> prefix (w_requests w @ [GetPage u])
                 (w_requests (snd (process_publisher lib net opts bdbase_map name w)))))
   \<and> (details_wanted opts info
      \<longrightarrow> prefix (w_requests w @ [BdbaseDetails (slugify_bdbase lib name)])
            (w_requests (snd (process_publisher lib net opts bdbase_map name w))))"
proof (intro conjI impI)
  show "cached_info net name w = (Inr info, w)"
    by (rule cached_info_hit [OF assms])
  show "metadata_requests (snd (process_publisher lib net opts bdbase_map name w))
     = metadata_requests w"
    by (rule process_publisher_metadata [OF assms])
next
  assume a: "w_images w (folder_jpg lib opts name) \<noteq> None \<and> \<not> details_wanted opts info"
  then obtain d s where "supplement lib net opts name info w = (Inr (info, d, s), w)"
    using supplement_quiet [of opts info lib net name w] by blast
  then show "w_requests (snd (process_publisher lib net opts bdbase_map name w)) = w_requests w"
    using a by (simp add: process_publisher_requests [OF assms])
next
  assume a: "w_images w (folder_jpg lib opts name) = None \<and> \<not> details_wanted opts info"
  then obtain d s where "supplement lib net opts name info w = (Inr (info, d, s), w)"
    using supplement_quiet [of opts info lib net name w] by blast
  then show run: "w_requests (snd (process_publisher lib net opts bdbase_map name w))
          = w_requests (snd (acquire_image lib net opts bdbase_map name info w))"
    using a by (simp add: process_publisher_requests [OF assms] and_then_Inr)
  assume "opt_prefer opts = Official
           \<and> dict_get (map_of info) (ascii ''official_url'') = Some u \<and> u \<noteq> []"
  then show "prefix (w_requests w @ [GetPage u])
                 (w_requests (snd (process_publisher lib net opts bdbase_map name w)))"
    unfolding run using acquire_image_asks [of opts info u w lib net bdbase_map name] by simp
next
  assume wanted: "details_wanted opts info"
  let ?A = "w_requests w @ [BdbaseDetails (slugify_bdbase lib name)]"
  have update: "opt_update_folder_info opts"
    using wanted by (simp add: details_wanted_def)
  have asked: "prefix ?A (w_requests (snd (supplement lib net opts name info w)))"
    by (simp add: supplement_asks [OF wanted])
  have chain: "prefix ?A (w_requests (snd (and_then (supplement lib net opts name info w)
                   (\<lambda>(info, description, website) w.
                      acquire_image lib net opts bdbase_map name info w))))"
  proof (rule and_then_grows [OF asked])
    fix x :: "info \<times> str option \<times> str option" and w' :: world
    assume "prefix ?A (w_requests w')"
    then show "prefix ?A (w_requests (snd ((case x of (info, description, website) \<Rightarrow>
                      \<lambda>w. acquire_image lib net opts bdbase_map name info w) w')))"
      by (cases x) (simp add: acquire_image_grows)
  qed
  show "prefix ?A (w_requests (snd (process_publisher lib net opts bdbase_map name w)))"
    using asked chain update by (simp add: process_publisher_requests [OF assms])
qed

theorem cached_record_requests_witness:
  "w_cache acme_done_world (ascii ''Acme Comics'') = Some acme_info \<and> acme_info \<noteq> []
   \<and> w_images acme_done_world (folder_jpg ascii_library acme_options (ascii ''Acme Comics'')) \<noteq> None
   \<and> \<not> details_wanted acme_options acme_info
   \<and> cached_info web_down (ascii ''Acme Comics'') acme_done_world = (Inr acme_info, acme_done_world)
   \<and> w_requests (snd (process_publisher ascii_library web_down acme_options Map.empty
                        (ascii ''Acme Comics'') acme_done_world)) = []"
  using cached_record_requests [OF acme_world_cache(5,2), of web_down ascii_library
      acme_options Map.empty]
  by (simp add: acme_world_cache acme_folder_jpg acme_done_image acme_details)

end
